theory Spec2Isabelle
  imports Main "HOL-Library.Sublist"
begin

section \<open>Python strings\<close>

text \<open>
  A Python \<open>str\<close> is a sequence of Unicode code points, so a string is a list of
  naturals here: slicing, \<open>len\<close> and \<open>in\<close> count code points as Python does.
  \<open>u\<close> turns an ASCII literal into such a list; every other character of a source
  literal is written as its code point.
\<close>

type_synonym ustr = "nat list"

definition u :: "string \<Rightarrow> ustr" where
  "u s = map of_char s"

text \<open>\<open>s.startswith(p)\<close>.\<close>

fun startswith :: "'a list \<Rightarrow> 'a list \<Rightarrow> bool" where
  "startswith s [] = True"
| "startswith [] (p # ps) = False"
| "startswith (c # cs) (p # ps) = (c = p \<and> startswith cs ps)"

text \<open>\<open>n in s\<close> for two strings: \<open>n\<close> occurs in \<open>s\<close> as a contiguous run.\<close>

fun py_in :: "'a list \<Rightarrow> 'a list \<Rightarrow> bool" where
  "py_in n [] = (n = [])"
| "py_in n (c # cs) = (startswith (c # cs) n \<or> py_in n cs)"

text \<open>\<open>any(k in s for k in keywords)\<close>.\<close>

definition any_in :: "ustr list \<Rightarrow> ustr \<Rightarrow> bool" where
  "any_in keywords s = list_ex (\<lambda>k. py_in k s) keywords"

section \<open>Exceptions\<close>

text \<open>
  An exception is its class and the text \<open>str(e)\<close> gives. \<open>External\<close> stands for
  whatever a library or the network raises (a timeout, a connection error, an API error).
\<close>

datatype exn_class = AttributeError | IndexError | UnicodeEncodeError | HTTPError | External

datatype py_exn = Exn exn_class ustr

fun exn_str :: "py_exn \<Rightarrow> ustr" where
  "exn_str (Exn c msg) = msg"

section \<open>Model-call errors as section text\<close>

definition quota_marker :: ustr where (* summarizer.py line 350: insufficient_quota *)
  "quota_marker =
     u ''insufficient_quota''"

definition http_429_marker :: ustr where (* summarizer.py line 350: 429 *)
  "http_429_marker =
     u ''429''"

definition auth_marker :: ustr where (* summarizer.py line 363: invalid_api_key *)
  "auth_marker =
     u ''invalid_api_key''"

definition http_401_marker :: ustr where (* summarizer.py line 363: 401 *)
  "http_401_marker =
     u ''401''"

definition error_head :: ustr where (* summarizer.py line 351: <U+274C>  *)
  "error_head =
     [10060] @ u '' ''"

definition other_mid :: ustr where (* summarizer.py line 374:  <U+C0DD><U+C131> <U+C911> <U+C624><U+B958> <U+BC1C><U+C0DD><LF><LF><U+C624><U+B958> <U+B0B4><U+C6A9>:  *)
  "other_mid =
     u '' '' @ [49373, 49457] @ u '' '' @ [51473] @ u '' '' @ [50724, 47448] @ u '' ''
     @ [48156, 49373, 10, 10, 50724, 47448] @ u '' '' @ [45236, 50857] @ u '': ''"

definition other_tail :: ustr where (* summarizer.py line 374: <LF><LF><U+BB38><U+C81C><U+AC00> <U+C9C0><U+C18D><U+B418><U+BA74>:<LF>- <U+B124><U+D2B8><U+C6CC><U+D06C> <U+C5F0><U+ACB0><U+C744> <U+D655><U+C778><U+D ... *)
  "other_tail =
     [10, 10, 47928, 51228, 44032] @ u '' '' @ [51648, 49549, 46104, 47732] @ u '':'' @ [10]
     @ u ''- '' @ [45348, 53944, 50892, 53356] @ u '' '' @ [50672, 44208, 51012] @ u '' ''
     @ [54869, 51064, 54616, 49464, 50836, 10] @ u ''- OpenAI '' @ [49436, 48708, 49828]
     @ u '' '' @ [49345, 53468, 47484] @ u '' '' @ [54869, 51064, 54616, 49464, 50836]
     @ u '': https://status.openai.com/'' @ [10] @ u ''- API '' @ [53412, 50752] @ u '' ''
     @ [44228, 51221] @ u '' '' @ [49345, 53468, 47484] @ u '' ''
     @ [54869, 51064, 54616, 49464, 50836]"

definition billing_dashboard_url :: ustr where
  "billing_dashboard_url =
     u ''https://platform.openai.com/account/usage''"

definition api_keys_url :: ustr where
  "api_keys_url =
     u ''https://platform.openai.com/api-keys''"

definition quota_tail_pre :: ustr where
  "quota_tail_pre =
     u '' '' @ [49373, 49457] @ u '' '' @ [49892, 54056] @ u '': OpenAI API ''
     @ [54624, 45817, 47049] @ u '' '' @ [52488, 44284, 10, 10, 54788, 51116]
     @ u '' OpenAI API '' @ [44228, 51221, 51032] @ u '' '' @ [53356, 47112, 46375, 51060]
     @ u '' '' @ [48512, 51313, 54616, 44144, 45208] @ u '' '' @ [54624, 45817, 47049, 51012]
     @ u '' '' @ [52488, 44284, 54664, 49845, 45768, 45796] @ u ''.'' @ [10, 10, 54644, 44208]
     @ u '' '' @ [48169, 48277] @ u '':'' @ [10] @ u ''1. OpenAI ''
     @ [45824, 49884, 48372, 46300, 50640, 49436] @ u '' '' @ [44228, 51221] @ u '' ''
     @ [49345, 53468] @ u '' '' @ [54869, 51064] @ u '': ''"

definition quota_tail_post :: ustr where
  "quota_tail_post =
     [10] @ u ''2. '' @ [44208, 51228] @ u '' '' @ [51221, 48372, 47484] @ u '' ''
     @ [52628, 44032, 54616, 44144, 45208] @ u '' '' @ [53356, 47112, 46375, 51012] @ u '' ''
     @ [52649, 51204, 54616, 49464, 50836, 10] @ u ''3. '' @ [46608, 45716] @ u '' ''
     @ [45796, 47480] @ u '' OpenAI API '' @ [53412, 47484] @ u '' ''
     @ [49324, 50857, 54616, 49464, 50836, 10, 10, 51088, 49464, 54620] @ u '' ''
     @ [51221, 48372] @ u '': https://platform.openai.com/docs/guides/error-codes/api-er''
     @ u ''rors''"

definition quota_tail :: ustr where (* summarizer.py line 351:  <U+C0DD><U+C131> <U+C2E4><U+D328>: OpenAI API <U+D560><U+B2F9><U+B7C9> <U+CD08><U+ACFC><LF><LF><U+D604><U+C7AC> OpenAI API <U+ACC4><U+C815><U+C758> < ... *)
  "quota_tail = quota_tail_pre @ billing_dashboard_url @ quota_tail_post"

definition auth_tail_pre :: ustr where
  "auth_tail_pre =
     u '' '' @ [49373, 49457] @ u '' '' @ [49892, 54056] @ u '': OpenAI API '' @ [53412]
     @ u '' '' @ [50724, 47448, 10, 10] @ u ''API '' @ [53412, 44032] @ u '' ''
     @ [50976, 54952, 54616, 51648] @ u '' '' @ [50506, 44144, 45208] @ u '' ''
     @ [47564, 47308, 46104, 50632, 49845, 45768, 45796] @ u ''.'' @ [10, 10, 54644, 44208]
     @ u '' '' @ [48169, 48277] @ u '':'' @ [10] @ u ''1. .env '' @ [54028, 51068, 51032]
     @ u '' OPENAI_API_KEY'' @ [44032] @ u '' '' @ [50732, 48148, 47480, 51648] @ u '' ''
     @ [54869, 51064, 54616, 49464, 50836, 10] @ u ''2. ''"

definition auth_tail_post :: ustr where
  "auth_tail_post =
     u '' '' @ [50640, 49436] @ u '' '' @ [49352] @ u '' API '' @ [53412, 47484] @ u '' ''
     @ [48156, 44553, 48155, 51004, 49464, 50836]"

definition auth_tail :: ustr where (* summarizer.py line 364:  <U+C0DD><U+C131> <U+C2E4><U+D328>: OpenAI API <U+D0A4> <U+C624><U+B958><LF><LF>API <U+D0A4><U+AC00> <U+C720><U+D6A8><U+D558><U+C9C0> <U+C54A><U+AC70> ... *)
  "auth_tail = auth_tail_pre @ api_keys_url @ auth_tail_post"


text \<open>The three messages of \<open>_format_openai_error\<close>, as functions of the section name.\<close>

definition quota_message :: "ustr \<Rightarrow> ustr" where
  "quota_message section_name = error_head @ section_name @ quota_tail"

definition auth_message :: "ustr \<Rightarrow> ustr" where
  "auth_message section_name = error_head @ section_name @ auth_tail"

definition other_message :: "ustr \<Rightarrow> ustr \<Rightarrow> ustr" where
  "other_message section_name error_str =
     error_head @ section_name @ other_mid @ error_str @ other_tail"

definition format_openai_error :: "py_exn \<Rightarrow> ustr \<Rightarrow> ustr" where
  "format_openai_error error section_name =
     (let error_str = exn_str error in
      if py_in quota_marker error_str \<or> py_in http_429_marker error_str
        then quota_message section_name
      else if py_in auth_marker error_str \<or> py_in http_401_marker error_str
        then auth_message section_name
      else other_message section_name error_str)"

section \<open>Python values and text helpers\<close>

text \<open>
  A field of a search result holds whatever the JSON of the search API held, so it is a
  dynamically typed scalar: \<open>None\<close>, a boolean, an integer or a string. (Floats and
  nested arrays or objects as field values are left out of the model.)
\<close>

datatype pyval = PNone | PBool bool | PInt int | PStr ustr

text \<open>Truthiness, as \<open>if v:\<close> tests it.\<close>

fun truthy :: "pyval \<Rightarrow> bool" where
  "truthy PNone = False"
| "truthy (PBool b) = b"
| "truthy (PInt n) = (n \<noteq> 0)"
| "truthy (PStr s) = (s \<noteq> [])"

fun is_str :: "pyval \<Rightarrow> bool" where
  "is_str (PStr s) = True"
| "is_str v = False"

text \<open>Decimal digits of a natural number, and \<open>str(v)\<close> as an f-string renders a value.\<close>

fun decimal :: "nat \<Rightarrow> ustr" where
  "decimal n = (if n < 10 then [48 + n] else decimal (n div 10) @ [48 + n mod 10])"

fun py_str :: "pyval \<Rightarrow> ustr" where
  "py_str PNone = u ''None''"
| "py_str (PBool b) = (if b then u ''True'' else u ''False'')"
| "py_str (PInt n) = (if n < 0 then u ''-'' @ decimal (nat (- n)) else decimal (nat n))"
| "py_str (PStr s) = s"

text \<open>
  \<open>str.isspace\<close> on one code point: the characters \<open>str.strip()\<close> removes.
\<close>

definition py_isspace :: "nat \<Rightarrow> bool" where
  "py_isspace c \<longleftrightarrow>
     (9 \<le> c \<and> c \<le> 13) \<or> (28 \<le> c \<and> c \<le> 32) \<or> c = 133 \<or> c = 160 \<or> c = 5760
     \<or> (8192 \<le> c \<and> c \<le> 8202) \<or> c = 8232 \<or> c = 8233 \<or> c = 8239 \<or> c = 8287
     \<or> c = 12288"

definition strip :: "ustr \<Rightarrow> ustr" where
  "strip s = rev (dropWhile py_isspace (rev (dropWhile py_isspace s)))"

text \<open>\<open>a or b\<close> on two optional values: the first that is not \<open>None\<close>.\<close>

fun orelse :: "'a option \<Rightarrow> 'a option \<Rightarrow> 'a option" where
  "orelse (Some x) y = Some x"
| "orelse None y = y"

text \<open>\<open>sep.join(xs)\<close>.\<close>

fun join :: "ustr \<Rightarrow> ustr list \<Rightarrow> ustr" where
  "join sep [] = []"
| "join sep [x] = x"
| "join sep (x # y # ys) = x @ sep @ join sep (y # ys)"

section \<open>The outside world\<close>

text \<open>
  A parsed HTML document, as far as the code looks at it: elements with their tag name,
  the tokens of their \<open>class\<close> attribute, their \<open>href\<close> attribute if any, and their
  children; and text strings. (Comments and the contents of script and style elements are
  not text for \<open>get_text\<close> and are left out.) A document is the list of its top-level
  nodes.
\<close>

datatype node = Text ustr | Elem ustr "ustr list" "ustr option" "node list"

text \<open>
  The parsed JSON of a search-API response, as far as the code's behaviour depends on
  it: the top-level value is an object or not; a member the code reads is an array or
  not; an array element is an object (its members scalars) or not. An association list
  stands for a dictionary: the first pair with a key is the entry of that key.
\<close>

datatype serp_entry = Entry "(ustr \<times> pyval) list" | NotADict

datatype serp_member = JArray "serp_entry list" | NotAList

datatype serp_json = JObject "(ustr \<times> serp_member) list" | NotAnObject

record response =
  status_code :: nat
  json_body :: "py_exn + serp_json"
  html :: "node list"

text \<open>
  Every outbound call is recorded: an HTTP GET with its URL and query parameters, an
  HTTP HEAD with its URL, a chat completion with its system message, user prompt and
  token limit. (Request headers and timeouts are not recorded.)
\<close>

datatype io_call =
    HttpGet ustr "(ustr \<times> ustr) list"
  | HttpHead ustr
  | ChatCreate ustr ustr nat

text \<open>
  The world answers each call, knowing the calls made before it: it raises an exception
  (\<open>Inl\<close>) or returns. A HEAD that follows redirects returns the final URL; a chat
  completion returns the \<open>message.content\<close> of each choice, which may be \<open>None\<close>.
  \<open>str_lower\<close> is Python's \<open>str.lower\<close>, left open. Printing to the console is not
  modelled and is taken to succeed.
\<close>

record world =
  str_lower :: "ustr \<Rightarrow> ustr"
  http_get :: "io_call list \<Rightarrow> ustr \<Rightarrow> (ustr \<times> ustr) list \<Rightarrow> py_exn + response"
  http_head :: "io_call list \<Rightarrow> ustr \<Rightarrow> py_exn + ustr"
  chat_create :: "io_call list \<Rightarrow> ustr \<Rightarrow> ustr \<Rightarrow> nat \<Rightarrow> py_exn + ustr option list"

text \<open>\<open>response.raise_for_status()\<close> raises on a 4xx or 5xx status.\<close>

definition raises_for_status :: "response \<Rightarrow> bool" where
  "raises_for_status r \<longleftrightarrow> 400 \<le> status_code r \<and> status_code r < 600"

section \<open>Searching a parsed document\<close>

text \<open>All elements of a subtree in document order, the root first.\<close>

fun elems_of :: "node \<Rightarrow> node list" where
  "elems_of (Text s) = []"
| "elems_of (Elem t cs h ks) = Elem t cs h ks # concat (map elems_of ks)"

text \<open>The elements below an element (what \<open>find\<close> and \<open>find_all\<close> search).\<close>

fun descendants :: "node \<Rightarrow> node list" where
  "descendants (Text s) = []"
| "descendants (Elem t cs h ks) = concat (map elems_of ks)"

fun tag_of :: "node \<Rightarrow> ustr" where
  "tag_of (Text s) = []"
| "tag_of (Elem t cs h ks) = t"

fun classes_of :: "node \<Rightarrow> ustr list" where
  "classes_of (Text s) = []"
| "classes_of (Elem t cs h ks) = cs"

text \<open>\<open>elem.get("href", "")\<close>.\<close>

fun href_of :: "node \<Rightarrow> ustr" where
  "href_of (Elem t cs (Some h) ks) = h"
| "href_of n = []"

text \<open>
  \<open>find_all(name, class_=c)\<close> keeps an element with that tag name one of whose class
  tokens is \<open>c\<close>; \<open>find\<close> returns the first such element or \<open>None\<close>.
\<close>

definition has_tag_class :: "ustr \<Rightarrow> ustr \<Rightarrow> node \<Rightarrow> bool" where
  "has_tag_class name c e \<longleftrightarrow> tag_of e = name \<and> c \<in> set (classes_of e)"

definition find_all :: "(node \<Rightarrow> bool) \<Rightarrow> node list \<Rightarrow> node list" where
  "find_all p soup = filter p (concat (map elems_of soup))"

definition find_in :: "(node \<Rightarrow> bool) \<Rightarrow> node \<Rightarrow> node option" where
  "find_in p element = List.find p (descendants element)"

text \<open>The text strings of a subtree in document order.\<close>

fun strings_of :: "node \<Rightarrow> ustr list" where
  "strings_of (Text s) = [s]"
| "strings_of (Elem t cs h ks) = concat (map strings_of ks)"

text \<open>
  \<open>get_text(separator, strip=True)\<close>: every string stripped, the empty ones dropped,
  the rest joined.
\<close>

definition get_text_strip :: "ustr \<Rightarrow> node \<Rightarrow> ustr" where
  "get_text_strip sep e = join sep (filter (\<lambda>s. s \<noteq> []) (map strip (strings_of e)))"

section \<open>Search results\<close>

text \<open>
  The dictionaries built at lines 128, 162 and 292: \<open>title\<close>, \<open>snippet\<close> and
  \<open>link\<close> are always present, \<open>date\<close> only in a news result.
\<close>

record search_result =
  title :: pyval
  snippet :: pyval
  link :: pyval
  date :: "pyval option"

section \<open>Scraping the search engine's result page\<close>

definition ddg_fixed_url :: ustr where (* summarizer.py line 219: https://duckduckgo.com/html/?q=<U+BBF8><U+B798><U+C2DC><U+C2A4><U+D15C> *)
  "ddg_fixed_url =
     u ''https://duckduckgo.com/html/?q='' @ [48120, 47000, 49884, 49828, 53596]"

definition ddg_origin :: ustr where (* summarizer.py line 264: https://duckduckgo.com *)
  "ddg_origin =
     u ''https://duckduckgo.com''"

definition ddg_search_prefix :: ustr where
  "ddg_search_prefix =
     u ''https://duckduckgo.com/html/?q=''"


text \<open>
  \<open>urllib.parse.quote_plus\<close>: the UTF-8 bytes of the string, letters, digits and
  \<open>_.-~\<close> kept, a space turned into \<open>+\<close>, every other byte written \<open>%XX\<close>. A
  surrogate code point cannot be encoded and raises.
\<close>

definition hex_digit :: "nat \<Rightarrow> nat" where
  "hex_digit d = (if d < 10 then 48 + d else 55 + d)"

definition percent_byte :: "nat \<Rightarrow> ustr" where
  "percent_byte b = [37, hex_digit (b div 16), hex_digit (b mod 16)]"

definition utf8 :: "nat \<Rightarrow> nat list" where
  "utf8 c =
     (if c < 128 then [c]
      else if c < 2048 then [192 + c div 64, 128 + c mod 64]
      else if c < 65536 then [224 + c div 4096, 128 + (c div 64) mod 64, 128 + c mod 64]
      else [240 + c div 262144, 128 + (c div 4096) mod 64, 128 + (c div 64) mod 64,
            128 + c mod 64])"

definition unreserved :: "nat \<Rightarrow> bool" where
  "unreserved c \<longleftrightarrow>
     (48 \<le> c \<and> c \<le> 57) \<or> (65 \<le> c \<and> c \<le> 90) \<or> (97 \<le> c \<and> c \<le> 122)
     \<or> c = 95 \<or> c = 46 \<or> c = 45 \<or> c = 126"

definition quote_char :: "nat \<Rightarrow> ustr" where
  "quote_char c =
     (if c = 32 then [43]
      else if unreserved c then [c]
      else concat (map percent_byte (utf8 c)))"

definition is_surrogate :: "nat \<Rightarrow> bool" where
  "is_surrogate c \<longleftrightarrow> 55296 \<le> c \<and> c \<le> 57343"

definition surrogate_msg :: ustr where
  "surrogate_msg =
     [39] @ u ''utf-8'' @ [39] @ u '' codec can'' @ [39]
     @ u ''t encode character: surrogates not allowed''"


definition quote_plus :: "ustr \<Rightarrow> py_exn + ustr" where
  "quote_plus s =
     (if list_ex is_surrogate s then Inl (Exn UnicodeEncodeError surrogate_msg)
      else Inr (concat (map quote_char s)))"

text \<open>The selector strategies of lines 239 to 245.\<close>

definition div_tag :: ustr where (* summarizer.py line 240: div *)
  "div_tag =
     u ''div''"

definition result_class :: ustr where (* summarizer.py line 240: result *)
  "result_class =
     u ''result''"

definition web_result_class :: ustr where (* summarizer.py line 241: web-result *)
  "web_result_class =
     u ''web-result''"

definition anchor_tag :: ustr where (* summarizer.py line 250: a *)
  "anchor_tag =
     u ''a''"

definition result_a_class :: ustr where (* summarizer.py line 250: result__a *)
  "result_a_class =
     u ''result__a''"

definition result_link_class :: ustr where (* summarizer.py line 251: result-link *)
  "result_link_class =
     u ''result-link''"

definition h2_tag :: ustr where (* summarizer.py line 252: h2 *)
  "h2_tag =
     u ''h2''"

definition result_title_class :: ustr where (* summarizer.py line 252: result__title *)
  "result_title_class =
     u ''result__title''"

definition wrapper_kh_prefix :: ustr where (* summarizer.py line 261: /l/?kh= *)
  "wrapper_kh_prefix =
     u ''/l/?kh=''"

definition wrapper_prefix :: ustr where (* summarizer.py line 261: /l/? *)
  "wrapper_prefix =
     u ''/l/?''"

definition http_prefix :: ustr where (* summarizer.py line 276: http *)
  "http_prefix =
     u ''http''"

definition result_snippet_class :: ustr where (* summarizer.py line 283: result__snippet *)
  "result_snippet_class =
     u ''result__snippet''"

definition span_tag :: ustr where (* summarizer.py line 285: span *)
  "span_tag =
     u ''span''"

definition p_tag :: ustr where (* summarizer.py line 286: p *)
  "p_tag =
     u ''p''"

definition result_date_class :: ustr where (* summarizer.py line 301: result__date *)
  "result_date_class =
     u ''result__date''"

definition time_tag :: ustr where (* summarizer.py line 302: time *)
  "time_tag =
     u ''time''"


definition strategy_a :: "node list \<Rightarrow> node list" where
  "strategy_a soup = find_all (has_tag_class div_tag result_class) soup"

definition strategy_b :: "node list \<Rightarrow> node list" where
  "strategy_b soup = find_all (has_tag_class div_tag web_result_class) soup"

text \<open>
  The function \<open>lambda x: x and "result" in x.lower()\<close> given as the class filter is
  tried on every class token and then on the tokens joined by a space.
\<close>

definition result_like :: "world \<Rightarrow> ustr \<Rightarrow> bool" where
  "result_like w x \<longleftrightarrow> x \<noteq> [] \<and> py_in result_class (str_lower w x)"

definition class_result_like :: "world \<Rightarrow> node \<Rightarrow> bool" where
  "class_result_like w e \<longleftrightarrow>
     tag_of e = div_tag
     \<and> (list_ex (result_like w) (classes_of e) \<or> result_like w (join (u '' '') (classes_of e)))"

definition strategy_c :: "world \<Rightarrow> node list \<Rightarrow> node list" where
  "strategy_c w soup = find_all (class_result_like w) soup"

text \<open>
  \<open>A[:max_results] or B[:max_results] or C[:max_results]\<close>: an empty list is false.
\<close>

definition result_elements :: "world \<Rightarrow> node list \<Rightarrow> nat \<Rightarrow> node list" where
  "result_elements w soup max_results =
     (if take max_results (strategy_a soup) \<noteq> [] then take max_results (strategy_a soup)
      else if take max_results (strategy_b soup) \<noteq> [] then take max_results (strategy_b soup)
      else take max_results (strategy_c w soup))"

definition title_elem :: "node \<Rightarrow> node option" where
  "title_elem element =
     orelse (find_in (has_tag_class anchor_tag result_a_class) element)
    (orelse (find_in (has_tag_class anchor_tag result_link_class) element)
    (orelse (find_in (has_tag_class h2_tag result_title_class) element)
            (find_in (\<lambda>e. tag_of e = anchor_tag) element)))"

definition snippet_elem :: "node \<Rightarrow> node option" where
  "snippet_elem element =
     orelse (find_in (has_tag_class anchor_tag result_snippet_class) element)
    (orelse (find_in (has_tag_class div_tag result_snippet_class) element)
    (orelse (find_in (has_tag_class span_tag result_snippet_class) element)
            (find_in (has_tag_class p_tag result_snippet_class) element)))"

definition date_elem :: "node \<Rightarrow> node option" where
  "date_elem element =
     orelse (find_in (has_tag_class span_tag result_date_class) element)
            (find_in (\<lambda>e. tag_of e = time_tag) element)"

text \<open>
  Lines 261 to 278: a redirect-wrapper link is resolved with a HEAD request, and kept as
  it is when the request raises or returns no URL; any other link that does not start
  with \<open>http\<close> gets the search engine's origin in front.
\<close>

definition resolve_link :: "world \<Rightarrow> io_call list \<Rightarrow> ustr \<Rightarrow> ustr \<times> io_call list" where
  "resolve_link w tr href =
     (if startswith href wrapper_kh_prefix \<or> startswith href wrapper_prefix then
        (let redirect_url = ddg_origin @ href in
         case http_head w tr redirect_url of
           Inl e \<Rightarrow> (href, tr @ [HttpHead redirect_url])
         | Inr url \<Rightarrow> (if url \<noteq> [] then url else href, tr @ [HttpHead redirect_url]))
      else if \<not> startswith href http_prefix then (ddg_origin @ href, tr)
      else (href, tr))"

definition snippet_text :: "node \<Rightarrow> ustr" where
  "snippet_text element =
     (case snippet_elem element of None \<Rightarrow> [] | Some e \<Rightarrow> get_text_strip [] e)"

definition date_text :: "node \<Rightarrow> ustr" where
  "date_text element =
     (case date_elem element of None \<Rightarrow> [] | Some e \<Rightarrow> get_text_strip [] e)"

definition result_dict :: "bool \<Rightarrow> node \<Rightarrow> ustr \<Rightarrow> ustr \<Rightarrow> search_result" where
  "result_dict is_news element title_text link_text =
     \<lparr>title = PStr title_text, snippet = PStr (snippet_text element), link = PStr link_text,
      date = (if is_news then Some (PStr (date_text element)) else None)\<rparr>"

text \<open>
  The loop of lines 247 to 310 over the candidate elements, with the results so far and
  the calls so far. The HEAD request for a wrapper link is made before the title is
  tested.
\<close>

fun extract_loop ::
  "world \<Rightarrow> nat \<Rightarrow> bool \<Rightarrow> node list \<Rightarrow> search_result list \<Rightarrow> io_call list
   \<Rightarrow> search_result list \<times> io_call list" where
  "extract_loop w max_results is_news [] results tr = (results, tr)"
| "extract_loop w max_results is_news (element # rest) results tr =
     (case title_elem element of
        None \<Rightarrow> extract_loop w max_results is_news rest results tr
      | Some te \<Rightarrow>
          (let title_text = get_text_strip [] te;
               (link_text, tr') = resolve_link w tr (href_of te)
           in if title_text \<noteq> [] then
                (let results' = results @ [result_dict is_news element title_text link_text]
                 in if length results' \<ge> max_results then (results', tr')
                    else extract_loop w max_results is_news rest results' tr')
              else extract_loop w max_results is_news rest results tr'))"

definition extract_results :: "world \<Rightarrow> io_call list \<Rightarrow> node list \<Rightarrow> nat \<Rightarrow> bool
    \<Rightarrow> search_result list \<times> io_call list" where
  "extract_results w tr soup max_results is_news =
     extract_loop w max_results is_news (result_elements w soup max_results) [] tr"

text \<open>
  \<open>_search_duckduckgo_html\<close>. Whatever is raised inside (by the encoding of the query,
  the GET or a bad status) is caught at line 312 and the results so far, none, returned.
  The URL requested is the one of line 219.
\<close>

definition search_duckduckgo_html ::
  "world \<Rightarrow> io_call list \<Rightarrow> ustr \<Rightarrow> nat \<Rightarrow> bool \<Rightarrow> search_result list \<times> io_call list" where
  "search_duckduckgo_html w tr query max_results is_news =
     (case quote_plus query of
        Inl e \<Rightarrow> ([], tr)
      | Inr encoded_query \<Rightarrow>
          (let url = ddg_fixed_url; tr1 = tr @ [HttpGet url []] in
           case http_get w tr url [] of
             Inl e \<Rightarrow> ([], tr1)
           | Inr response \<Rightarrow>
               if raises_for_status response then ([], tr1)
               else extract_results w tr1 (html response) max_results is_news))"

section \<open>Collecting search results\<close>

record summarizer =
  client :: bool
  serpapi_key :: "ustr option"

text \<open>
  The state of a \<open>CompanySummarizer\<close>: whether an OpenAI client was built, and the
  value of \<open>SERPAPI_KEY\<close>. \<open>if self.serpapi_key:\<close> holds for a key that is set and
  not empty.
\<close>

definition has_serpapi_key :: "summarizer \<Rightarrow> bool" where
  "has_serpapi_key cfg \<longleftrightarrow> (case serpapi_key cfg of None \<Rightarrow> False | Some k \<Rightarrow> k \<noteq> [])"

definition serpapi_url :: ustr where (* summarizer.py line 119: https://serpapi.com/search *)
  "serpapi_url =
     u ''https://serpapi.com/search''"

(* serpapi_url: the same literal at line 154 *)
definition general_query_suffix :: ustr where (* summarizer.py line 112:  <U+D68C><U+C0AC> <U+C18C><U+AC1C> <U+C778><U+C7AC><U+C0C1> *)
  "general_query_suffix =
     u '' '' @ [54924, 49324] @ u '' '' @ [49548, 44060] @ u '' '' @ [51064, 51116, 49345]"

(* general_query_suffix: the same literal at line 181 *)
definition news_query_suffix :: ustr where (* summarizer.py line 146:  <U+CD5C><U+ADFC> <U+B274><U+C2A4> <U+BE44><U+C804> <U+C804><U+B7B5> *)
  "news_query_suffix =
     u '' '' @ [52572, 44540] @ u '' '' @ [45684, 49828] @ u '' '' @ [48708, 51204] @ u '' ''
     @ [51204, 47029]"

(* news_query_suffix: the same literal at line 192 *)
definition organic_results_key :: ustr where (* summarizer.py line 124: organic_results *)
  "organic_results_key =
     u ''organic_results''"

definition news_results_key :: ustr where (* summarizer.py line 158: news_results *)
  "news_results_key =
     u ''news_results''"


definition general_query :: "ustr \<Rightarrow> ustr" where
  "general_query company_name = company_name @ general_query_suffix"

definition news_query :: "ustr \<Rightarrow> ustr" where
  "news_query company_name = company_name @ news_query_suffix"

definition general_params :: "ustr \<Rightarrow> ustr \<Rightarrow> (ustr \<times> ustr) list" where
  "general_params company_name key =
     [(u ''q'', general_query company_name), (u ''api_key'', key), (u ''engine'', u ''google''),
      (u ''hl'', u ''ko''), (u ''gl'', u ''kr'')]"

definition news_params :: "ustr \<Rightarrow> ustr \<Rightarrow> (ustr \<times> ustr) list" where
  "news_params company_name key =
     [(u ''q'', news_query company_name), (u ''api_key'', key), (u ''engine'', u ''google''),
      (u ''tbm'', u ''nws''), (u ''hl'', u ''ko''), (u ''gl'', u ''kr'')]"

text \<open>\<open>item.get(k, "")\<close> on a dictionary.\<close>

definition dict_get :: "(ustr \<times> pyval) list \<Rightarrow> ustr \<Rightarrow> pyval" where
  "dict_get d k = (case map_of d k of None \<Rightarrow> PStr [] | Some v \<Rightarrow> v)"

definition organic_dict :: "(ustr \<times> pyval) list \<Rightarrow> search_result" where
  "organic_dict item =
     \<lparr>title = dict_get item (u ''title''), snippet = dict_get item (u ''snippet''),
      link = dict_get item (u ''link''), date = None\<rparr>"

definition news_dict :: "(ustr \<times> pyval) list \<Rightarrow> search_result" where
  "news_dict item =
     \<lparr>title = dict_get item (u ''title''), snippet = dict_get item (u ''snippet''),
      link = dict_get item (u ''link''), date = Some (dict_get item (u ''date''))\<rparr>"

text \<open>
  \<open>data[key][:n]\<close> when \<open>key in data\<close>: the first \<open>n\<close> elements of the array. On any
  other shape of \<open>data\<close> either the key is not found or an exception is raised before
  anything is appended, so nothing is collected.
\<close>

definition serp_items :: "serp_json \<Rightarrow> ustr \<Rightarrow> nat \<Rightarrow> serp_entry list" where
  "serp_items data key n =
     (case data of
        NotAnObject \<Rightarrow> []
      | JObject members \<Rightarrow>
          (case map_of members key of
             Some (JArray items) \<Rightarrow> take n items
           | _ \<Rightarrow> []))"

text \<open>
  The loop appending one dictionary per element: \<open>item.get\<close> on an element that is not
  a dictionary raises, which ends the loop; what was appended before stays.
\<close>

fun append_items :: "((ustr \<times> pyval) list \<Rightarrow> search_result) \<Rightarrow> serp_entry list
    \<Rightarrow> search_result list" where
  "append_items mk [] = []"
| "append_items mk (Entry item # rest) = mk item # append_items mk rest"
| "append_items mk (NotADict # rest) = []"

text \<open>
  One query against the search API, lines 110 to 140 and 144 to 175: everything raised
  is caught, a status other than 200 gives nothing.
\<close>

definition serpapi_search ::
  "world \<Rightarrow> io_call list \<Rightarrow> (ustr \<times> ustr) list \<Rightarrow> ustr \<Rightarrow> nat
   \<Rightarrow> ((ustr \<times> pyval) list \<Rightarrow> search_result) \<Rightarrow> search_result list \<times> io_call list" where
  "serpapi_search w tr params key n mk =
     (let tr1 = tr @ [HttpGet serpapi_url params] in
      case http_get w tr serpapi_url params of
        Inl e \<Rightarrow> ([], tr1)
      | Inr response \<Rightarrow>
          if status_code response = 200 then
            (case json_body response of
               Inl e \<Rightarrow> ([], tr1)
             | Inr data \<Rightarrow> (append_items mk (serp_items data key n), tr1))
          else ([], tr1))"

definition search_with_serpapi ::
  "world \<Rightarrow> io_call list \<Rightarrow> ustr \<Rightarrow> ustr \<Rightarrow> search_result list \<times> io_call list" where
  "search_with_serpapi w tr key company_name =
     (let (general, tr1) =
            serpapi_search w tr (general_params company_name key) organic_results_key 5
              organic_dict;
          (news, tr2) =
            serpapi_search w tr1 (news_params company_name key) news_results_key 3 news_dict
      in (general @ news, tr2))"

definition search_with_duckduckgo ::
  "world \<Rightarrow> io_call list \<Rightarrow> ustr \<Rightarrow> search_result list \<times> io_call list" where
  "search_with_duckduckgo w tr company_name =
     (let (ddg_results, tr1) =
            search_duckduckgo_html w tr (general_query company_name) 5 False;
          (news_results, tr2) =
            search_duckduckgo_html w tr1 (news_query company_name) 3 True
      in (ddg_results @ news_results, tr2))"

text \<open>
  \<open>_search_company_info\<close>: the search API when its key is set, the scraped search
  engine otherwise. The company URL is not used.
\<close>

definition search_company_info ::
  "summarizer \<Rightarrow> world \<Rightarrow> io_call list \<Rightarrow> ustr \<Rightarrow> ustr option
   \<Rightarrow> search_result list \<times> io_call list" where
  "search_company_info cfg w tr company_name company_url =
     (case serpapi_key cfg of
        None \<Rightarrow> search_with_duckduckgo w tr company_name
      | Some key \<Rightarrow>
          if key \<noteq> [] then search_with_serpapi w tr key company_name
          else search_with_duckduckgo w tr company_name)"

section \<open>Reading the company's homepage\<close>

definition removed_tags :: "ustr list" where
  "removed_tags = [u ''script'', u ''style'', u ''nav'', u ''footer'', u ''header'']"

text \<open>The document after \<open>decompose()\<close> on every element with one of these tags.\<close>

fun prune :: "node \<Rightarrow> node list" where
  "prune (Text s) = [Text s]"
| "prune (Elem t cs h ks) =
     (if t \<in> set removed_tags then [] else [Elem t cs h (concat (map prune ks))])"

definition fetch_website_content ::
  "world \<Rightarrow> io_call list \<Rightarrow> ustr \<Rightarrow> ustr option \<times> io_call list" where
  "fetch_website_content w tr url =
     (let tr1 = tr @ [HttpGet url []] in
      case http_get w tr url [] of
        Inl e \<Rightarrow> (None, tr1)
      | Inr response \<Rightarrow>
          if raises_for_status response then (None, tr1)
          else
            (let soup = concat (map prune (html response));
                 text = get_text_strip (u '' '') (Elem (u ''[document]'') [] None soup)
             in (Some (if length text > 5000 then take 5000 text else text), tr1)))"

section \<open>Classifying results\<close>

text \<open>
  \<open>v.lower()\<close> on a field: only a string has the method; on any other value the
  attribute lookup raises.
\<close>

fun type_name :: "pyval \<Rightarrow> ustr" where
  "type_name PNone = u ''NoneType''"
| "type_name (PBool b) = u ''bool''"
| "type_name (PInt n) = u ''int''"
| "type_name (PStr s) = u ''str''"

definition no_attribute :: "pyval \<Rightarrow> ustr \<Rightarrow> py_exn" where
  "no_attribute v name =
     Exn AttributeError ([39] @ type_name v @ [39] @ u '' object has no attribute '' @ [39] @ name @ [39])"

fun py_lower :: "world \<Rightarrow> pyval \<Rightarrow> py_exn + ustr" where
  "py_lower w (PStr s) = Inr (str_lower w s)"
| "py_lower w v = Inl (no_attribute v (u ''lower''))"

text \<open>\<open>r.get("title", "").lower() + r.get("snippet", "").lower()\<close>.\<close>

definition title_snippet_lower :: "world \<Rightarrow> search_result \<Rightarrow> py_exn + ustr" where
  "title_snippet_lower w r =
     (case py_lower w (title r) of
        Inl e \<Rightarrow> Inl e
      | Inr t \<Rightarrow> (case py_lower w (snippet r) of Inl e \<Rightarrow> Inl e | Inr s \<Rightarrow> Inr (t @ s)))"

text \<open>
  A list comprehension \<open>[r for r in rs if cond(r)]\<close> whose condition may raise: the
  first exception ends it.
\<close>

fun filter_raising :: "('a \<Rightarrow> py_exn + bool) \<Rightarrow> 'a list \<Rightarrow> py_exn + 'a list" where
  "filter_raising cond [] = Inr []"
| "filter_raising cond (r # rs) =
     (case cond r of
        Inl e \<Rightarrow> Inl e
      | Inr b \<Rightarrow>
          (case filter_raising cond rs of
             Inl e \<Rightarrow> Inl e
           | Inr kept \<Rightarrow> Inr (if b then r # kept else kept)))"

definition kw_injaesang :: ustr where (* summarizer.py line 451: <U+C778><U+C7AC><U+C0C1> *)
  "kw_injaesang =
     [51064, 51116, 49345]"

definition kw_chaeyong :: ustr where (* summarizer.py line 451: <U+CC44><U+C6A9> *)
  "kw_chaeyong =
     [52292, 50857]"

definition kw_injae :: ustr where (* summarizer.py line 451: <U+C778><U+C7AC> *)
  "kw_injae =
     [51064, 51116]"

definition kw_insa :: ustr where (* summarizer.py line 451: <U+C778><U+C0AC> *)
  "kw_insa =
     [51064, 49324]"

definition kw_injaegwan :: ustr where (* summarizer.py line 451: <U+C778><U+C7AC><U+AD00> *)
  "kw_injaegwan =
     [51064, 51116, 44288]"

(* kw_injaesang: the same literal at lines 622, 461, 643, 651, 660 *)
(* kw_chaeyong: the same literal at lines 622, 461, 643, 651, 660 *)
(* kw_injae: the same literal at lines 622, 651 *)
(* kw_insa: the same literal at line 622 *)
(* kw_injaegwan: the same literal at line 622 *)
definition kw_news :: ustr where (* summarizer.py line 506: <U+B274><U+C2A4> *)
  "kw_news =
     [45684, 49828]"

definition kw_article :: ustr where (* summarizer.py line 507: <U+AE30><U+C0AC> *)
  "kw_article =
     [44592, 49324]"

(* kw_news: the same literal at line 681 *)
(* kw_article: the same literal at line 682 *)
definition kw_vision :: ustr where (* summarizer.py line 525: <U+BE44><U+C804> *)
  "kw_vision =
     [48708, 51204]"

definition kw_strategy :: ustr where (* summarizer.py line 525: <U+C804><U+B7B5> *)
  "kw_strategy =
     [51204, 47029]"

definition kw_goal :: ustr where (* summarizer.py line 525: <U+BAA9><U+D45C> *)
  "kw_goal =
     [47785, 54364]"

definition kw_direction :: ustr where (* summarizer.py line 525: <U+BC29><U+D5A5> *)
  "kw_direction =
     [48169, 54693]"

definition kw_future :: ustr where (* summarizer.py line 525: <U+BBF8><U+B798> *)
  "kw_future =
     [48120, 47000]"

(* kw_vision: the same literal at line 706 *)
(* kw_strategy: the same literal at line 706 *)
(* kw_goal: the same literal at line 706 *)
(* kw_direction: the same literal at line 706 *)
(* kw_future: the same literal at line 706 *)

text \<open>The keyword lists of lines 451, 622 and of lines 525 and 706.\<close>

definition talent_keywords_model :: "ustr list" where
  "talent_keywords_model =
     [kw_injaesang, kw_chaeyong, kw_injae, kw_insa, kw_injaesang, kw_injaegwan]"

definition talent_keywords :: "ustr list" where
  "talent_keywords = [kw_injaesang, kw_chaeyong, kw_injae, kw_insa, kw_injaegwan]"

definition vision_keywords :: "ustr list" where
  "vision_keywords = [kw_vision, kw_strategy, kw_goal, kw_direction, kw_future]"

definition keyword_cond :: "world \<Rightarrow> ustr list \<Rightarrow> search_result \<Rightarrow> py_exn + bool" where
  "keyword_cond w keywords r =
     (case title_snippet_lower w r of Inl e \<Rightarrow> Inl e | Inr s \<Rightarrow> Inr (any_in keywords s))"

text \<open>Lines 446 to 453 and 617 to 624.\<close>

definition talent_results_model :: "world \<Rightarrow> search_result list \<Rightarrow> py_exn + search_result list" where
  "talent_results_model w search_results =
     filter_raising (keyword_cond w talent_keywords_model) search_results"

definition talent_results :: "world \<Rightarrow> search_result list \<Rightarrow> py_exn + search_result list" where
  "talent_results w search_results =
     filter_raising (keyword_cond w talent_keywords) search_results"

text \<open>
  Lines 502 to 508 and 677 to 683: \<open>r.get("date") or ... in title.lower() or ...\<close>;
  the title is lower-cased only when the date is missing or false.
\<close>

definition date_truthy :: "search_result \<Rightarrow> bool" where
  "date_truthy r \<longleftrightarrow> (case date r of None \<Rightarrow> False | Some d \<Rightarrow> truthy d)"

definition news_cond :: "world \<Rightarrow> search_result \<Rightarrow> py_exn + bool" where
  "news_cond w r =
     (if date_truthy r then Inr True
      else (case py_lower w (title r) of
              Inl e \<Rightarrow> Inl e
            | Inr t \<Rightarrow> Inr (py_in kw_news t \<or> py_in kw_article t)))"

definition news_results :: "world \<Rightarrow> search_result list \<Rightarrow> py_exn + search_result list" where
  "news_results w search_results = filter_raising (news_cond w) search_results"

definition vision_results :: "world \<Rightarrow> search_result list \<Rightarrow> py_exn + search_result list" where
  "vision_results w search_results =
     filter_raising (keyword_cond w vision_keywords) search_results"

section \<open>Sections written by the model\<close>

text \<open>
  One chat completion, \<open>response.choices[0].message.content.strip()\<close> included: the
  call may raise, the list of choices may be empty, the content may be \<open>None\<close>. (The
  model name and the temperature are not recorded.)
\<close>

definition chat_text ::
  "world \<Rightarrow> io_call list \<Rightarrow> ustr \<Rightarrow> ustr \<Rightarrow> nat \<Rightarrow> (py_exn + ustr) \<times> io_call list" where
  "chat_text w tr system_msg prompt max_tokens =
     (case chat_create w tr system_msg prompt max_tokens of
        Inl e \<Rightarrow> Inl e
      | Inr [] \<Rightarrow> Inl (Exn IndexError (u ''list index out of range''))
      | Inr (None # cs) \<Rightarrow> Inl (no_attribute PNone (u ''strip''))
      | Inr (Some content # cs) \<Rightarrow> Inr (strip content),
      tr @ [ChatCreate system_msg prompt max_tokens])"

text \<open>The \<open>try\<close> around the call: an exception becomes the section's text.\<close>

definition section_text ::
  "world \<Rightarrow> io_call list \<Rightarrow> ustr \<Rightarrow> ustr \<Rightarrow> nat \<Rightarrow> ustr \<Rightarrow> ustr \<times> io_call list" where
  "section_text w tr system_msg prompt max_tokens section_name =
     (case chat_text w tr system_msg prompt max_tokens of
        (Inl e, tr') \<Rightarrow> (format_openai_error e section_name, tr')
      | (Inr content, tr') \<Rightarrow> (content, tr'))"

text \<open>\<open>if website_content:\<close> holds for content that is not \<open>None\<close> and not empty.\<close>

definition has_content :: "ustr option \<Rightarrow> bool" where
  "has_content website_content \<longleftrightarrow>
     (case website_content of None \<Rightarrow> False | Some c \<Rightarrow> c \<noteq> [])"

definition company_name_label :: ustr where (* summarizer.py line 393: <U+D68C><U+C0AC> <U+C774><U+B984>:  *)
  "company_name_label =
     [54924, 49324] @ u '' '' @ [51060, 47492] @ u '': ''"

(* company_name_label: the same literal at lines 443, 510 *)
definition search_results_label :: ustr where (* summarizer.py line 396: <U+AC80><U+C0C9> <U+ACB0><U+ACFC>:<LF> *)
  "search_results_label =
     [44160, 49353] @ u '' '' @ [44208, 44284] @ u '':'' @ [10]"

definition homepage_label :: ustr where (* summarizer.py line 402: <LF><U+D68C><U+C0AC> <U+D648><U+D398><U+C774><U+C9C0> <U+B0B4><U+C6A9> <U+0028><U+C77C><U+BD80><U+0029>:<LF> *)
  "homepage_label =
     [10, 54924, 49324] @ u '' '' @ [54856, 54168, 51060, 51648] @ u '' '' @ [45236, 50857]
     @ u '' ('' @ [51068, 48512] @ u ''):'' @ [10]"

definition prompt_head :: ustr where (* summarizer.py line 404: <U+B2E4><U+C74C> <U+C815><U+BCF4><U+B97C> <U+BC14><U+D0D5><U+C73C><U+B85C>  *)
  "prompt_head =
     [45796, 51020] @ u '' '' @ [51221, 48372, 47484] @ u '' '' @ [48148, 53461, 51004, 47196]
     @ u '' ''"

(* prompt_head: the same literal at lines 466, 535 *)
definition overview_prompt_mid :: ustr where (* summarizer.py line 404: <U+C758> <U+D68C><U+C0AC> <U+AC1C><U+C694><U+B97C> <U+D55C><U+AD6D><U+C5B4><U+B85C> <U+C791><U+C131><U+D574><U+C8FC><U+C138><U+C694>.<LF><U+D68C><U+C0 ... *)
  "overview_prompt_mid =
     [51032] @ u '' '' @ [54924, 49324] @ u '' '' @ [44060, 50836, 47484] @ u '' ''
     @ [54620, 44397, 50612, 47196] @ u '' '' @ [51089, 49457, 54644, 51452, 49464, 50836]
     @ u ''.'' @ [10, 54924, 49324] @ u '' '' @ [44060, 50836, 50640, 45716] @ u '' ''
     @ [45796, 51020] @ u '' '' @ [45236, 50857, 51060] @ u '' ''
     @ [54252, 54632, 46104, 50612, 50556] @ u '' '' @ [54633, 45768, 45796] @ u '':'' @ [10]
     @ u ''- '' @ [54924, 49324, 51032] @ u '' '' @ [51452, 50836] @ u '' '' @ [49324, 50629]
     @ u '' '' @ [48516, 50556, 10] @ u ''- '' @ [54924, 49324, 51032] @ u '' ''
     @ [44508, 47784, 50752] @ u '' '' @ [50948, 52824, 10] @ u ''- '' @ [54924, 49324, 51032]
     @ u '' '' @ [51452, 50836] @ u '' '' @ [51228, 54408] @ u ''/'' @ [49436, 48708, 49828, 10]
     @ u ''- '' @ [54924, 49324, 51032] @ u '' '' @ [53945, 51669, 51060, 45208] @ u '' ''
     @ [44053, 51216, 10, 10, 51221, 48372] @ u '':'' @ [10]"

definition overview_prompt_tail :: ustr where (* summarizer.py line 404: <LF><LF><U+D68C><U+C0AC> <U+AC1C><U+C694><U+B97C> 3-5<U+BB38><U+B2E8><U+C73C><U+B85C> <U+C791><U+C131><U+D574><U+C8FC><U+C138><U+C694>. <U+AC1D><U+AD0 ... *)
  "overview_prompt_tail =
     [10, 10, 54924, 49324] @ u '' '' @ [44060, 50836, 47484] @ u '' 3-5''
     @ [47928, 45800, 51004, 47196] @ u '' '' @ [51089, 49457, 54644, 51452, 49464, 50836]
     @ u ''. '' @ [44061, 44288, 51201, 51060, 44256] @ u '' '' @ [51221, 54869, 54620] @ u '' ''
     @ [51221, 48372, 47564] @ u '' '' @ [54252, 54632, 54644, 51452, 49464, 50836] @ u ''.''"

definition overview_system :: ustr where (* summarizer.py line 422: <U+B2F9><U+C2E0><U+C740> <U+D68C><U+C0AC> <U+C815><U+BCF4><U+B97C> <U+BD84><U+C11D><U+D558><U+ACE0> <U+C694><U+C57D><U+D558><U+B294> <U+C804><U+BB38>< ... *)
  "overview_system =
     [45817, 49888, 51008] @ u '' '' @ [54924, 49324] @ u '' '' @ [51221, 48372, 47484] @ u '' ''
     @ [48516, 49437, 54616, 44256] @ u '' '' @ [50836, 50557, 54616, 45716] @ u '' ''
     @ [51204, 47928, 44032, 51077, 45768, 45796] @ u ''.''"

definition overview_section :: ustr where (* summarizer.py line 431: <U+D68C><U+C0AC> <U+AC1C><U+C694> *)
  "overview_section =
     [54924, 49324] @ u '' '' @ [44060, 50836]"

definition talent_info_label :: ustr where (* summarizer.py line 456: <U+C778><U+C7AC><U+C0C1> <U+AD00><U+B828> <U+C815><U+BCF4>:<LF> *)
  "talent_info_label =
     [51064, 51116, 49345] @ u '' '' @ [44288, 47144] @ u '' '' @ [51221, 48372] @ u '':'' @ [10]"

definition talent_homepage_label :: ustr where (* summarizer.py line 464: <LF><U+D648><U+D398><U+C774><U+C9C0> <U+C778><U+C7AC><U+C0C1> <U+AD00><U+B828> <U+B0B4><U+C6A9>:<LF> *)
  "talent_homepage_label =
     [10, 54856, 54168, 51060, 51648] @ u '' '' @ [51064, 51116, 49345] @ u '' ''
     @ [44288, 47144] @ u '' '' @ [45236, 50857] @ u '':'' @ [10]"

definition talent_prompt_mid :: ustr where (* summarizer.py line 466: <U+C758> <U+C778><U+C7AC><U+C0C1><U+ACFC> <U+C778><U+C7AC><U+C0C1> <U+D0A4><U+C6CC><U+B4DC><U+B97C> <U+D55C><U+AD6D><U+C5B4><U+B85C> <U+C791><U+C131>< ... *)
  "talent_prompt_mid =
     [51032] @ u '' '' @ [51064, 51116, 49345, 44284] @ u '' '' @ [51064, 51116, 49345] @ u '' ''
     @ [53412, 50892, 46300, 47484] @ u '' '' @ [54620, 44397, 50612, 47196] @ u '' ''
     @ [51089, 49457, 54644, 51452, 49464, 50836] @ u ''.''
     @ [10, 51064, 51116, 49345, 50640, 45716] @ u '' '' @ [45796, 51020] @ u '' ''
     @ [45236, 50857, 51060] @ u '' '' @ [54252, 54632, 46104, 50612, 50556] @ u '' ''
     @ [54633, 45768, 45796] @ u '':'' @ [10] @ u ''- '' @ [54924, 49324, 44032] @ u '' ''
     @ [49440, 54840, 54616, 45716] @ u '' '' @ [51064, 51116, 51032] @ u '' ''
     @ [53945, 49457, 10] @ u ''- '' @ [51064, 51116, 49345] @ u '' '' @ [53412, 50892, 46300]
     @ u '' (3-5'' @ [44060] @ u '')'' @ [10] @ u ''- '' @ [54924, 49324, 44032] @ u '' ''
     @ [51473, 49884, 54616, 45716] @ u '' '' @ [44032, 52824, 44288, 51060, 45208] @ u '' ''
     @ [50669, 47049, 10, 10, 51221, 48372] @ u '':'' @ [10]"

definition talent_prompt_tail :: ustr where (* summarizer.py line 466: <LF><LF><U+C778><U+C7AC><U+C0C1><U+C744> 2-4<U+BB38><U+B2E8><U+C73C><U+B85C> <U+C791><U+C131><U+D558><U+ACE0>, <U+B9C8><U+C9C0><U+B9C9><U+C5D0> "<U+C7 ... *)
  "talent_prompt_tail =
     [10, 10, 51064, 51116, 49345, 51012] @ u '' 2-4'' @ [47928, 45800, 51004, 47196] @ u '' ''
     @ [51089, 49457, 54616, 44256] @ u '', '' @ [47560, 51648, 47561, 50640] @ u '' ''
     @ [34, 51064, 51116, 49345] @ u '' '' @ [53412, 50892, 46300] @ u '': [''
     @ [53412, 50892, 46300] @ u ''1, '' @ [53412, 50892, 46300] @ u ''2, ...]'' @ [34] @ u '' ''
     @ [54805, 49885, 51004, 47196] @ u '' '' @ [51221, 47532, 54644, 51452, 49464, 50836]
     @ u ''.''"

definition talent_system :: ustr where (* summarizer.py line 483: <U+B2F9><U+C2E0><U+C740> <U+D68C><U+C0AC> <U+C778><U+C7AC><U+C0C1><U+C744> <U+BD84><U+C11D><U+D558><U+B294> <U+C804><U+BB38><U+AC00><U+C785><U+B2C8><U ... *)
  "talent_system =
     [45817, 49888, 51008] @ u '' '' @ [54924, 49324] @ u '' '' @ [51064, 51116, 49345, 51012]
     @ u '' '' @ [48516, 49437, 54616, 45716] @ u '' ''
     @ [51204, 47928, 44032, 51077, 45768, 45796] @ u ''.''"

definition talent_section :: ustr where (* summarizer.py line 492: <U+C778><U+C7AC><U+C0C1> *)
  "talent_section =
     [51064, 51116, 49345]"

definition news_label :: ustr where (* summarizer.py line 513: <U+CD5C><U+ADFC> <U+B274><U+C2A4>/<U+AE30><U+C0AC>:<LF> *)
  "news_label =
     [52572, 44540] @ u '' '' @ [45684, 49828] @ u ''/'' @ [44592, 49324] @ u '':'' @ [10]"

definition unknown_date :: ustr where (* summarizer.py line 515: <U+B0A0><U+C9DC> <U+BBF8><U+C0C1> *)
  "unknown_date =
     [45216, 51676] @ u '' '' @ [48120, 49345]"

(* unknown_date: the same literal at line 688 *)
definition vision_info_label :: ustr where (* summarizer.py line 529: <U+BE44><U+C804>/<U+C804><U+B7B5> <U+AD00><U+B828> <U+C815><U+BCF4>:<LF> *)
  "vision_info_label =
     [48708, 51204] @ u ''/'' @ [51204, 47029] @ u '' '' @ [44288, 47144] @ u '' ''
     @ [51221, 48372] @ u '':'' @ [10]"

definition vision_prompt_mid :: ustr where (* summarizer.py line 535: <U+C758> <U+CD5C><U+ADFC> <U+BE44><U+C804><U+ACFC> <U+C804><U+B7B5><U+C744> <U+D55C><U+AD6D><U+C5B4><U+B85C> <U+C791><U+C131><U+D574><U+C8FC><U+C138>< ... *)
  "vision_prompt_mid =
     [51032] @ u '' '' @ [52572, 44540] @ u '' '' @ [48708, 51204, 44284] @ u '' ''
     @ [51204, 47029, 51012] @ u '' '' @ [54620, 44397, 50612, 47196] @ u '' ''
     @ [51089, 49457, 54644, 51452, 49464, 50836] @ u ''.'' @ [10, 52572, 44540] @ u '' ''
     @ [48708, 51204, 50640, 45716] @ u '' '' @ [45796, 51020] @ u '' '' @ [45236, 50857, 51060]
     @ u '' '' @ [54252, 54632, 46104, 50612, 50556] @ u '' '' @ [54633, 45768, 45796] @ u '':''
     @ [10] @ u ''- '' @ [54924, 49324, 51032] @ u '' '' @ [52572, 44540] @ u '' ''
     @ [48156, 54364, 46108] @ u '' '' @ [48708, 51204, 51060, 45208] @ u '' ''
     @ [47785, 54364, 10] @ u ''- '' @ [51473, 51109, 44592] @ u '' '' @ [51204, 47029] @ u '' ''
     @ [48169, 54693, 10] @ u ''- '' @ [52572, 44540] @ u '' '' @ [51452, 50836] @ u '' ''
     @ [51060, 49800, 45208] @ u '' '' @ [48320, 54868, 10, 10, 51221, 48372] @ u '':'' @ [10]"

definition vision_prompt_tail :: ustr where (* summarizer.py line 535: <LF><LF><U+CD5C><U+ADFC> <U+BE44><U+C804><U+C744> 3-5<U+BB38><U+B2E8><U+C73C><U+B85C> <U+C791><U+C131><U+D574><U+C8FC><U+C138><U+C694>. <U+CD5C><U+ADF ... *)
  "vision_prompt_tail =
     [10, 10, 52572, 44540] @ u '' '' @ [48708, 51204, 51012] @ u '' 3-5''
     @ [47928, 45800, 51004, 47196] @ u '' '' @ [51089, 49457, 54644, 51452, 49464, 50836]
     @ u ''. '' @ [52572, 44540] @ u '' '' @ [45684, 49828, 45208] @ u '' ''
     @ [44592, 49324, 47484] @ u '' '' @ [44592, 48152, 51004, 47196] @ u '' '' @ [54620]
     @ u '' '' @ [44396, 52404, 51201, 51064] @ u '' '' @ [45236, 50857, 51012] @ u '' ''
     @ [54252, 54632, 54644, 51452, 49464, 50836] @ u ''.''"

definition vision_system :: ustr where (* summarizer.py line 552: <U+B2F9><U+C2E0><U+C740> <U+D68C><U+C0AC> <U+BE44><U+C804><U+ACFC> <U+C804><U+B7B5><U+C744> <U+BD84><U+C11D><U+D558><U+B294> <U+C804><U+BB38><U+AC00>< ... *)
  "vision_system =
     [45817, 49888, 51008] @ u '' '' @ [54924, 49324] @ u '' '' @ [48708, 51204, 44284] @ u '' ''
     @ [51204, 47029, 51012] @ u '' '' @ [48516, 49437, 54616, 45716] @ u '' ''
     @ [51204, 47928, 44032, 51077, 45768, 45796] @ u ''.''"

definition vision_section :: ustr where (* summarizer.py line 561: <U+CD5C><U+ADFC> <U+BE44><U+C804> *)
  "vision_section =
     [52572, 44540] @ u '' '' @ [48708, 51204]"


text \<open>Lines 397 to 399: the numbered results of the overview prompt.\<close>

fun overview_context_items :: "nat \<Rightarrow> search_result list \<Rightarrow> ustr" where
  "overview_context_items i [] = []"
| "overview_context_items i (r # rs) =
     decimal i @ u ''. '' @ py_str (title r) @ [10]
     @ u ''   '' @ py_str (snippet r) @ [10, 10]
     @ overview_context_items (Suc i) rs"

definition overview_context :: "ustr \<Rightarrow> search_result list \<Rightarrow> ustr option \<Rightarrow> ustr" where
  "overview_context company_name search_results website_content =
     company_name_label @ company_name @ [10, 10]
     @ (if search_results \<noteq> []
        then search_results_label @ overview_context_items 1 (take 5 search_results) else [])
     @ (case website_content of
          None \<Rightarrow> []
        | Some c \<Rightarrow> if c \<noteq> [] then homepage_label @ take 2000 c @ [10] else [])"

definition overview_prompt :: "ustr \<Rightarrow> search_result list \<Rightarrow> ustr option \<Rightarrow> ustr" where
  "overview_prompt company_name search_results website_content =
     prompt_head @ company_name @ overview_prompt_mid
     @ overview_context company_name search_results website_content
     @ overview_prompt_tail"

definition generate_overview ::
  "world \<Rightarrow> io_call list \<Rightarrow> ustr \<Rightarrow> search_result list \<Rightarrow> ustr option \<Rightarrow> ustr \<times> io_call list" where
  "generate_overview w tr company_name search_results website_content =
     section_text w tr overview_system
       (overview_prompt company_name search_results website_content) 1000 overview_section"

text \<open>Line 458 and line 532: \<open>- title: snippet\<close>.\<close>

fun dash_items :: "search_result list \<Rightarrow> ustr" where
  "dash_items [] = []"
| "dash_items (r # rs) =
     u ''- '' @ py_str (title r) @ u '': '' @ py_str (snippet r) @ [10] @ dash_items rs"

text \<open>\<open>"k1" in website_content or "k2" in website_content\<close> on optional content.\<close>

definition mentions_talent :: "ustr option \<Rightarrow> bool" where
  "mentions_talent website_content \<longleftrightarrow>
     (case website_content of
        None \<Rightarrow> False
      | Some c \<Rightarrow> c \<noteq> [] \<and> (py_in kw_injaesang c \<or> py_in kw_chaeyong c))"

definition talent_context :: "ustr \<Rightarrow> search_result list \<Rightarrow> ustr option \<Rightarrow> ustr" where
  "talent_context company_name talent website_content =
     company_name_label @ company_name @ [10, 10]
     @ (if talent \<noteq> [] then talent_info_label @ dash_items (take 3 talent) else [])
     @ (case website_content of
          None \<Rightarrow> []
        | Some c \<Rightarrow>
            if mentions_talent website_content
            then talent_homepage_label @ take 1500 c @ [10] else [])"

definition generate_talent_profile ::
  "world \<Rightarrow> io_call list \<Rightarrow> ustr \<Rightarrow> search_result list \<Rightarrow> ustr option
   \<Rightarrow> (py_exn + ustr) \<times> io_call list" where
  "generate_talent_profile w tr company_name search_results website_content =
     (case talent_results_model w search_results of
        Inl e \<Rightarrow> (Inl e, tr)
      | Inr talent \<Rightarrow>
          (let prompt = prompt_head @ company_name @ talent_prompt_mid
                        @ talent_context company_name talent website_content
                        @ talent_prompt_tail;
               (text, tr') = section_text w tr talent_system prompt 800 talent_section
           in (Inr text, tr')))"

text \<open>\<open>result.get("date", default)\<close>: the default only when the key is missing.\<close>

definition date_or :: "ustr \<Rightarrow> search_result \<Rightarrow> pyval" where
  "date_or missing r = (case date r of None \<Rightarrow> PStr missing | Some d \<Rightarrow> d)"

text \<open>Lines 514 to 517.\<close>

fun news_context_items :: "search_result list \<Rightarrow> ustr" where
  "news_context_items [] = []"
| "news_context_items (r # rs) =
     u ''- ['' @ py_str (date_or unknown_date r) @ u ''] '' @ py_str (title r) @ [10]
     @ u ''  '' @ py_str (snippet r) @ [10, 10]
     @ news_context_items rs"

text \<open>
  Lines 502 to 533: the context of the vision prompt. The vision keywords are tried only
  in the \<open>else\<close> branch, when no result passed the news test.
\<close>

definition vision_context :: "world \<Rightarrow> ustr \<Rightarrow> search_result list \<Rightarrow> py_exn + ustr" where
  "vision_context w company_name search_results =
     (case news_results w search_results of
        Inl e \<Rightarrow> Inl e
      | Inr news \<Rightarrow>
          if news \<noteq> [] then
            Inr (company_name_label @ company_name @ [10, 10]
                 @ news_label @ news_context_items (take 5 news))
          else
            (case vision_results w search_results of
               Inl e \<Rightarrow> Inl e
             | Inr vision \<Rightarrow>
                 Inr (company_name_label @ company_name @ [10, 10]
                      @ (if vision \<noteq> [] then vision_info_label @ dash_items (take 3 vision)
                         else []))))"

definition generate_recent_vision ::
  "world \<Rightarrow> io_call list \<Rightarrow> ustr \<Rightarrow> search_result list \<Rightarrow> (py_exn + ustr) \<times> io_call list" where
  "generate_recent_vision w tr company_name search_results =
     (case vision_context w company_name search_results of
        Inl e \<Rightarrow> (Inl e, tr)
      | Inr ctx \<Rightarrow>
          (let prompt = prompt_head @ company_name @ vision_prompt_mid @ ctx
                        @ vision_prompt_tail;
               (text, tr') = section_text w tr vision_system prompt 1000 vision_section
           in (Inr text, tr')))"

section \<open>Sections formatted without the model\<close>

definition section_head :: ustr where (* summarizer.py line 573: ===  *)
  "section_head =
     u ''=== ''"

(* section_head: the same literal at lines 614, 674 *)
definition overview_title_tail :: ustr where (* summarizer.py line 573:  <U+D68C><U+C0AC> <U+AC1C><U+C694> ===<LF><LF> *)
  "overview_title_tail =
     u '' '' @ [54924, 49324] @ u '' '' @ [44060, 50836] @ u '' ==='' @ [10, 10]"

definition no_results_text :: ustr where (* summarizer.py line 578: <U+AC80><U+C0C9> <U+ACB0><U+ACFC><U+B97C> <U+CC3E><U+C744> <U+C218> <U+C5C6><U+C2B5><U+B2C8><U+B2E4>. <U+D68C><U+C0AC> <U+D648><U+D398><U+C774><U+C9C0 ... *)
  "no_results_text =
     [44160, 49353] @ u '' '' @ [44208, 44284, 47484] @ u '' '' @ [52286, 51012] @ u '' ''
     @ [49688] @ u '' '' @ [50630, 49845, 45768, 45796] @ u ''. '' @ [54924, 49324] @ u '' ''
     @ [54856, 54168, 51060, 51648] @ u '' URL'' @ [51012] @ u '' ''
     @ [51077, 47141, 54616, 49884, 47732] @ u '' '' @ [45908] @ u '' '' @ [47566, 51008]
     @ u '' '' @ [51221, 48372, 47484] @ u '' '' @ [50619, 51012] @ u '' '' @ [49688] @ u '' ''
     @ [51080, 49845, 45768, 45796] @ u ''.''"

definition search_results_header :: ustr where (* summarizer.py line 582: <U+3010><U+AC80><U+C0C9> <U+ACB0><U+ACFC><U+3011><LF><LF> *)
  "search_results_header =
     [12304, 44160, 49353] @ u '' '' @ [44208, 44284, 12305, 10, 10]"

definition link_label :: ustr where (* summarizer.py line 592:    <U+B9C1><U+D06C>:  *)
  "link_label =
     u ''   '' @ [47553, 53356] @ u '': ''"

(* link_label: the same literal at lines 637, 697, 721, 736 *)
definition homepage_header :: ustr where (* summarizer.py line 596: <LF><U+3010><U+D68C><U+C0AC> <U+D648><U+D398><U+C774><U+C9C0> <U+B0B4><U+C6A9><U+3011><LF><LF> *)
  "homepage_header =
     [10, 12304, 54924, 49324] @ u '' '' @ [54856, 54168, 51060, 51648] @ u '' ''
     @ [45236, 50857, 12305, 10, 10]"

definition truncated_note :: ustr where (* summarizer.py line 600: ... <U+0028><U+B0B4><U+C6A9><U+C774> <U+AE38><U+C5B4> <U+C77C><U+BD80><U+B9CC> <U+D45C><U+C2DC><U+B429><U+B2C8><U+B2E4><U+0029> *)
  "truncated_note =
     u ''... ('' @ [45236, 50857, 51060] @ u '' '' @ [44600, 50612] @ u '' ''
     @ [51068, 48512, 47564] @ u '' '' @ [54364, 49884, 46121, 45768, 45796] @ u '')''"

definition talent_title_tail :: ustr where (* summarizer.py line 614:  <U+C778><U+C7AC><U+C0C1> ===<LF><LF> *)
  "talent_title_tail =
     u '' '' @ [51064, 51116, 49345] @ u '' ==='' @ [10, 10]"

definition talent_results_header :: ustr where (* summarizer.py line 627: <U+3010><U+C778><U+C7AC><U+C0C1> <U+AD00><U+B828> <U+AC80><U+C0C9> <U+ACB0><U+ACFC><U+3011><LF><LF> *)
  "talent_results_header =
     [12304, 51064, 51116, 49345] @ u '' '' @ [44288, 47144] @ u '' '' @ [44160, 49353] @ u '' ''
     @ [44208, 44284, 12305, 10, 10]"

definition no_talent_text :: ustr where (* summarizer.py line 640: <U+C778><U+C7AC><U+C0C1> <U+AD00><U+B828> <U+AC80><U+C0C9> <U+ACB0><U+ACFC><U+B97C> <U+CC3E><U+C744> <U+C218> <U+C5C6><U+C2B5><U+B2C8><U+B2E4>.<LF><LF ... *)
  "no_talent_text =
     [51064, 51116, 49345] @ u '' '' @ [44288, 47144] @ u '' '' @ [44160, 49353] @ u '' ''
     @ [44208, 44284, 47484] @ u '' '' @ [52286, 51012] @ u '' '' @ [49688] @ u '' ''
     @ [50630, 49845, 45768, 45796] @ u ''.'' @ [10, 10]"

definition talent_homepage_header :: ustr where (* summarizer.py line 645: <LF><U+3010><U+D648><U+D398><U+C774><U+C9C0> <U+C778><U+C7AC><U+C0C1> <U+AD00><U+B828> <U+B0B4><U+C6A9><U+3011><LF><LF> *)
  "talent_homepage_header =
     [10, 12304, 54856, 54168, 51060, 51648] @ u '' '' @ [51064, 51116, 49345] @ u '' ''
     @ [44288, 47144] @ u '' '' @ [45236, 50857, 12305, 10, 10]"

definition talent_tip :: ustr where (* summarizer.py line 662: <LF><U+1F4A1> <U+D301>: <U+D68C><U+C0AC> <U+D648><U+D398><U+C774><U+C9C0><U+C758> <U+CC44><U+C6A9> <U+D398><U+C774><U+C9C0><U+B098> <U+C778><U+C7AC><U ... *)
  "talent_tip =
     [10, 128161] @ u '' '' @ [54017] @ u '': '' @ [54924, 49324] @ u '' ''
     @ [54856, 54168, 51060, 51648, 51032] @ u '' '' @ [52292, 50857] @ u '' ''
     @ [54168, 51060, 51648, 45208] @ u '' '' @ [51064, 51116, 49345] @ u '' ''
     @ [54168, 51060, 51648] @ u '' URL'' @ [51012] @ u '' ''
     @ [51077, 47141, 54616, 49884, 47732] @ u '' '' @ [45908] @ u '' '' @ [51221, 54869, 54620]
     @ u '' '' @ [51221, 48372, 47484] @ u '' '' @ [50619, 51012] @ u '' '' @ [49688] @ u '' ''
     @ [51080, 49845, 45768, 45796] @ u ''.''"

definition vision_title_tail :: ustr where (* summarizer.py line 674:  <U+CD5C><U+ADFC> <U+BE44><U+C804> <U+BC0F> <U+C804><U+B7B5> ===<LF><LF> *)
  "vision_title_tail =
     u '' '' @ [52572, 44540] @ u '' '' @ [48708, 51204] @ u '' '' @ [48143] @ u '' ''
     @ [51204, 47029] @ u '' ==='' @ [10, 10]"

definition news_header :: ustr where (* summarizer.py line 686: <U+3010><U+CD5C><U+ADFC> <U+B274><U+C2A4>/<U+AE30><U+C0AC><U+3011><LF><LF> *)
  "news_header =
     [12304, 52572, 44540] @ u '' '' @ [45684, 49828] @ u ''/'' @ [44592, 49324, 12305, 10, 10]"

definition vision_header :: ustr where (* summarizer.py line 711: <U+3010><U+BE44><U+C804>/<U+C804><U+B7B5> <U+AD00><U+B828> <U+C815><U+BCF4><U+3011><LF><LF> *)
  "vision_header =
     [12304, 48708, 51204] @ u ''/'' @ [51204, 47029] @ u '' '' @ [44288, 47144] @ u '' ''
     @ [51221, 48372, 12305, 10, 10]"

definition no_vision_text :: ustr where (* summarizer.py line 724: <U+CD5C><U+ADFC> <U+BE44><U+C804>/<U+C804><U+B7B5> <U+AD00><U+B828> <U+C815><U+BCF4><U+B97C> <U+CC3E><U+C744> <U+C218> <U+C5C6><U+C2B5><U+B2C8><U+B2E4 ... *)
  "no_vision_text =
     [52572, 44540] @ u '' '' @ [48708, 51204] @ u ''/'' @ [51204, 47029] @ u '' ''
     @ [44288, 47144] @ u '' '' @ [51221, 48372, 47484] @ u '' '' @ [52286, 51012] @ u '' ''
     @ [49688] @ u '' '' @ [50630, 49845, 45768, 45796] @ u ''.'' @ [10, 10]"

definition general_results_header :: ustr where (* summarizer.py line 726: <U+3010><U+C77C><U+BC18> <U+AC80><U+C0C9> <U+ACB0><U+ACFC><U+3011><LF><LF> *)
  "general_results_header =
     [12304, 51068, 48152] @ u '' '' @ [44160, 49353] @ u '' '' @ [44208, 44284, 12305, 10, 10]"


text \<open>
  The numbered entries of lines 583 to 593 (and 628 to 638, 712 to 722, 727 to 737):
  the snippet and the link are written only when they are true values.
\<close>

fun numbered_items :: "nat \<Rightarrow> search_result list \<Rightarrow> ustr" where
  "numbered_items i [] = []"
| "numbered_items i (r # rs) =
     decimal i @ u ''. '' @ py_str (title r) @ [10]
     @ (if truthy (snippet r) then u ''   '' @ py_str (snippet r) @ [10] else [])
     @ (if truthy (link r) then link_label @ py_str (link r) @ [10] else [])
     @ [10]
     @ numbered_items (Suc i) rs"

text \<open>Lines 687 to 698: the same with the date in brackets before the title.\<close>

fun news_items :: "nat \<Rightarrow> search_result list \<Rightarrow> ustr" where
  "news_items i [] = []"
| "news_items i (r # rs) =
     decimal i @ u ''. ['' @ py_str (date_or unknown_date r) @ u ''] '' @ py_str (title r) @ [10]
     @ (if truthy (snippet r) then u ''   '' @ py_str (snippet r) @ [10] else [])
     @ (if truthy (link r) then link_label @ py_str (link r) @ [10] else [])
     @ [10]
     @ news_items (Suc i) rs"

definition format_search_results_as_overview ::
  "ustr \<Rightarrow> search_result list \<Rightarrow> ustr option \<Rightarrow> ustr" where
  "format_search_results_as_overview company_name search_results website_content =
     (let text = section_head @ company_name @ overview_title_tail in
      if search_results = [] \<and> \<not> has_content website_content then text @ no_results_text
      else
        text
        @ (if search_results \<noteq> []
           then search_results_header @ numbered_items 1 (take 5 search_results) else [])
        @ (case website_content of
             None \<Rightarrow> []
           | Some c \<Rightarrow>
               if c \<noteq> [] then
                 homepage_header @ take 2000 c
                 @ (if length c > 2000 then truncated_note else [])
               else []))"

text \<open>\<open>s.split("\n")\<close>: the pieces between line feeds, at least one.\<close>

fun split_lines_from :: "ustr \<Rightarrow> ustr \<Rightarrow> ustr list" where
  "split_lines_from cur [] = [rev cur]"
| "split_lines_from cur (c # cs) =
     (if c = 10 then rev cur # split_lines_from [] cs else split_lines_from (c # cur) cs)"

definition split_lines :: "ustr \<Rightarrow> ustr list" where
  "split_lines s = split_lines_from [] s"

text \<open>Lines 645 to 656: the lines of the homepage that name talent or hiring.\<close>

definition homepage_talent_lines :: "ustr \<Rightarrow> ustr" where
  "homepage_talent_lines c =
     (let talent_lines =
            filter (\<lambda>line. py_in kw_injaesang line \<or> py_in kw_chaeyong line \<or> py_in kw_injae line)
              (split_lines c)
      in if talent_lines \<noteq> [] then join [10] (take 10 talent_lines) else take 1000 c)"

definition format_search_results_as_talent_profile ::
  "world \<Rightarrow> ustr \<Rightarrow> search_result list \<Rightarrow> ustr option \<Rightarrow> py_exn + ustr" where
  "format_search_results_as_talent_profile w company_name search_results website_content =
     (case talent_results w search_results of
        Inl e \<Rightarrow> Inl e
      | Inr talent \<Rightarrow>
          Inr (section_head @ company_name @ talent_title_tail
               @ (if talent \<noteq> [] then talent_results_header @ numbered_items 1 (take 5 talent)
                  else no_talent_text)
               @ (case website_content of
                    None \<Rightarrow> []
                  | Some c \<Rightarrow>
                      if mentions_talent website_content
                      then talent_homepage_header @ homepage_talent_lines c else [])
               @ (if talent = [] \<and> \<not> mentions_talent website_content then talent_tip
                  else [])))"

text \<open>
  Lines 674 to 739. As in the prompt of the model variant, the vision keywords are tried
  only when no result passed the news test.
\<close>

definition format_search_results_as_vision ::
  "world \<Rightarrow> ustr \<Rightarrow> search_result list \<Rightarrow> py_exn + ustr" where
  "format_search_results_as_vision w company_name search_results =
     (case news_results w search_results of
        Inl e \<Rightarrow> Inl e
      | Inr news \<Rightarrow>
          if news \<noteq> [] then
            Inr (section_head @ company_name @ vision_title_tail
                 @ news_header @ news_items 1 (take 5 news))
          else
            (case vision_results w search_results of
               Inl e \<Rightarrow> Inl e
             | Inr vision \<Rightarrow>
                 Inr (section_head @ company_name @ vision_title_tail
                      @ (if vision \<noteq> [] then
                           vision_header @ numbered_items 1 (take 5 vision)
                         else
                           no_vision_text
                           @ (if search_results \<noteq> [] then
                                general_results_header
                                @ numbered_items 1 (take 3 search_results)
                              else [])))))"

section \<open>The whole request\<close>

record company_summary_result =
  overview :: "ustr option"
  talent_profile :: "ustr option"
  recent_vision :: "ustr option"

definition to_dict :: "company_summary_result \<Rightarrow> (ustr \<times> ustr option) list" where
  "to_dict r =
     [(u ''overview'', overview r), (u ''talent_profile'', talent_profile r),
      (u ''recent_vision'', recent_vision r)]"

text \<open>\<open>if company_url:\<close> holds for a URL that is not \<open>None\<close> and not empty.\<close>

definition website_step ::
  "world \<Rightarrow> io_call list \<Rightarrow> ustr option \<Rightarrow> ustr option \<times> io_call list" where
  "website_step w tr company_url =
     (case company_url of
        None \<Rightarrow> (None, tr)
      | Some url \<Rightarrow> if url \<noteq> [] then fetch_website_content w tr url else (None, tr))"

text \<open>
  Lines 69 to 87: the three sections, one after the other, by the model when there is a
  client and by the formatters otherwise. An exception raised by one of them is not
  caught here.
\<close>

definition sections_by_model ::
  "world \<Rightarrow> io_call list \<Rightarrow> ustr \<Rightarrow> search_result list \<Rightarrow> ustr option
   \<Rightarrow> (py_exn + company_summary_result) \<times> io_call list" where
  "sections_by_model w tr company_name search_results website_content =
     (let (ov, tr1) = generate_overview w tr company_name search_results website_content in
      case generate_talent_profile w tr1 company_name search_results website_content of
        (Inl e, tr2) \<Rightarrow> (Inl e, tr2)
      | (Inr tp, tr2) \<Rightarrow>
          (case generate_recent_vision w tr2 company_name search_results of
             (Inl e, tr3) \<Rightarrow> (Inl e, tr3)
           | (Inr rv, tr3) \<Rightarrow>
               (Inr \<lparr>overview = Some ov, talent_profile = Some tp, recent_vision = Some rv\<rparr>,
                tr3)))"

definition sections_by_format ::
  "world \<Rightarrow> ustr \<Rightarrow> search_result list \<Rightarrow> ustr option \<Rightarrow> py_exn + company_summary_result" where
  "sections_by_format w company_name search_results website_content =
     (let ov = format_search_results_as_overview company_name search_results website_content in
      case format_search_results_as_talent_profile w company_name search_results
             website_content of
        Inl e \<Rightarrow> Inl e
      | Inr tp \<Rightarrow>
          (case format_search_results_as_vision w company_name search_results of
             Inl e \<Rightarrow> Inl e
           | Inr rv \<Rightarrow>
               Inr \<lparr>overview = Some ov, talent_profile = Some tp, recent_vision = Some rv\<rparr>))"

text \<open>
  \<open>summarize_company\<close>: the dictionary of the three sections, or the exception that
  left it, and the calls made.
\<close>

definition summarize_company ::
  "summarizer \<Rightarrow> world \<Rightarrow> io_call list \<Rightarrow> ustr \<Rightarrow> ustr option
   \<Rightarrow> (py_exn + (ustr \<times> ustr option) list) \<times> io_call list" where
  "summarize_company cfg w tr company_name company_url =
     (let (search_results, tr1) = search_company_info cfg w tr company_name company_url;
          (website_content, tr2) = website_step w tr1 company_url;
          (sections, tr3) =
            (if client cfg
             then sections_by_model w tr2 company_name search_results website_content
             else (sections_by_format w company_name search_results website_content, tr2))
      in (case sections of Inl e \<Rightarrow> Inl e | Inr result \<Rightarrow> Inr (to_dict result), tr3))"

section \<open>The command-line front end\<close>

text \<open>
  \<open>main\<close> of \<open>main.py\<close>, given the two lines typed and the summarizer its
  constructor would build. An empty name ends it before the summarizer is made; an
  exception out of \<open>summarize_company\<close> is not caught.
\<close>

datatype main_outcome =
    Rejected
  | Raised py_exn
  | Completed "(ustr \<times> ustr option) list"

definition main :: "summarizer \<Rightarrow> world \<Rightarrow> ustr \<Rightarrow> ustr \<Rightarrow> main_outcome \<times> io_call list" where
  "main cfg w name_typed url_typed =
     (let company_name = strip name_typed;
          company_url = (if strip url_typed = [] then None else Some (strip url_typed))
      in if company_name = [] then (Rejected, [])
         else
           (case summarize_company cfg w [] company_name company_url of
              (Inl e, tr) \<Rightarrow> (Raised e, tr)
            | (Inr result, tr) \<Rightarrow> (Completed result, tr)))"

section \<open>Test doubles\<close>

text \<open>Lower-casing of the ASCII letters only, for the examples.\<close>

definition ascii_lower :: "ustr \<Rightarrow> ustr" where
  "ascii_lower s = map (\<lambda>c. if 65 \<le> c \<and> c \<le> 90 then c + 32 else c) s"

text \<open>A world without network: every call raises.\<close>

definition offline :: world where
  "offline =
     \<lparr>str_lower = ascii_lower,
      http_get = (\<lambda>tr url params. Inl (Exn External (u ''connection refused''))),
      http_head = (\<lambda>tr url. Inl (Exn External (u ''connection refused''))),
      chat_create = (\<lambda>tr s p n. Inl (Exn External (u ''connection refused'')))\<rparr>"

text \<open>A world that serves one page to every GET.\<close>

definition serving :: "node list \<Rightarrow> world" where
  "serving page =
     offline\<lparr>http_get := (\<lambda>tr url params.
        Inr \<lparr>status_code = 200, json_body = Inr NotAnObject, html = page\<rparr>)\<rparr>"

text \<open>A world whose search API answers every query with one JSON document.\<close>

definition answering :: "serp_json \<Rightarrow> world" where
  "answering data =
     offline\<lparr>http_get := (\<lambda>tr url params.
        Inr \<lparr>status_code = 200, json_body = Inr data, html = []\<rparr>)\<rparr>"

text \<open>A world whose model call raises the given exception.\<close>

definition model_raising :: "py_exn \<Rightarrow> world" where
  "model_raising e = offline\<lparr>chat_create := (\<lambda>tr s p n. Inl e)\<rparr>"

definition no_keys :: summarizer where
  "no_keys = \<lparr>client = False, serpapi_key = None\<rparr>"

text \<open>A world that serves one page and resolves every redirect to one URL.\<close>

definition resolving :: "node list \<Rightarrow> ustr \<Rightarrow> world" where
  "resolving page final = (serving page)\<lparr>http_head := (\<lambda>tr url. Inr final)\<rparr>"

text \<open>
  Result pages: one result whose link is a redirect wrapper; one result block without
  any anchor; one block without anchor whose class only contains the word; two results
  under the first selector; one result under the third selector only.
\<close>

definition wrapped_page :: "node list" where
  "wrapped_page =
     [Elem div_tag [result_class] None
        [Elem anchor_tag [result_a_class] (Some (u ''/l/?uddg=acme'')) [Text (u ''Acme'')],
         Elem anchor_tag [result_snippet_class] None [Text (u '' Makers of things '')]]]"

definition untitled_page :: "node list" where
  "untitled_page = [Elem div_tag [result_class] None [Text (u ''no anchor here'')]]"

definition untitled_fallback_page :: "node list" where
  "untitled_fallback_page = [Elem div_tag [u ''results''] None [Text (u ''no anchor here'')]]"

definition two_results_page :: "node list" where
  "two_results_page =
     [Elem div_tag [result_class] None
        [Elem anchor_tag [result_a_class] (Some (u ''https://acme.example/'')) [Text (u ''Acme'')]],
      Elem div_tag [result_class] None
        [Elem anchor_tag [result_a_class] (Some (u ''/about'')) [Text (u ''About'')]]]"

definition fallback_page :: "node list" where
  "fallback_page =
     [Elem div_tag [u ''Result-Item''] None
        [Elem anchor_tag [] (Some (u ''https://acme.example/'')) [Text (u ''Acme'')]]]"

text \<open>
  A summarizer with a search-API key and no model, and two JSON answers of the search
  API: one organic result with a string title, one whose title is \<open>null\<close>.
\<close>

definition search_key_only :: summarizer where
  "search_key_only = \<lparr>client = False, serpapi_key = Some (u ''key'')\<rparr>"

definition titled_answer :: serp_json where
  "titled_answer =
     JObject [(organic_results_key,
               JArray [Entry [(u ''title'', PStr (u ''Acme Inc'')),
                              (u ''snippet'', PStr (u ''Makers of things''))]])]"

definition null_title_answer :: serp_json where
  "null_title_answer =
     JObject [(organic_results_key,
               JArray [Entry [(u ''title'', PNone),
                              (u ''snippet'', PStr (u ''Makers of things''))]])]"

text \<open>Some search results.\<close>

definition plain_result :: search_result where
  "plain_result =
     \<lparr>title = PStr (u ''Acme Inc''), snippet = PStr (u ''Makers of things''),
      link = PStr (u ''https://acme.example/''), date = None\<rparr>"

definition hiring_result :: search_result where
  "hiring_result =
     \<lparr>title = PStr (u ''Acme '' @ kw_chaeyong), snippet = PStr [],
      link = PStr (u ''https://acme.example/jobs''), date = None\<rparr>"

definition dated_result :: search_result where
  "dated_result =
     \<lparr>title = PStr (u ''Acme grows''), snippet = PStr (u ''Acme '' @ kw_vision),
      link = PStr (u ''https://press.example/1''), date = Some (PStr (u ''2024-01-02''))\<rparr>"

section \<open>Candidates with a title\<close>

text \<open>
  The text of a candidate's title element, and whether the candidate has a title: a
  title element whose text is not empty.
\<close>

definition title_text :: "node \<Rightarrow> ustr" where
  "title_text element =
     (case title_elem element of None \<Rightarrow> [] | Some te \<Rightarrow> get_text_strip [] te)"

definition titled :: "node \<Rightarrow> bool" where
  "titled element \<longleftrightarrow> title_text element \<noteq> []"

section \<open>The classes in the words of the specification\<close>

text \<open>The string a field holds, for a field that is a string.\<close>

fun the_str :: "pyval \<Rightarrow> ustr" where
  "the_str (PStr s) = s"
| "the_str v = []"

text \<open>
  A result whose title and snippet are strings, as the specification's data model has
  them.
\<close>

definition str_fields :: "search_result \<Rightarrow> bool" where
  "str_fields r \<longleftrightarrow> is_str (title r) \<and> is_str (snippet r)"

text \<open>
  The talent class as the specification words it: the lower-cased title followed by the
  lower-cased snippet contains one of the talent keywords.
\<close>

definition talent_match :: "world \<Rightarrow> search_result \<Rightarrow> bool" where
  "talent_match w r \<longleftrightarrow>
     (\<exists>k \<in> {kw_injaesang, kw_chaeyong, kw_injae, kw_insa, kw_injaegwan}.
        py_in k (str_lower w (the_str (title r)) @ str_lower w (the_str (snippet r))))"

text \<open>
  The news class: a date that is there and not empty, or a title with the marker for
  "news" or the one for "article". The title is tested after lower-casing.
\<close>

definition news_match :: "world \<Rightarrow> search_result \<Rightarrow> bool" where
  "news_match w r \<longleftrightarrow>
     date_truthy r
     \<or> py_in kw_news (str_lower w (the_str (title r)))
     \<or> py_in kw_article (str_lower w (the_str (title r)))"

definition vision_match :: "world \<Rightarrow> search_result \<Rightarrow> bool" where
  "vision_match w r \<longleftrightarrow>
     (\<exists>k \<in> {kw_vision, kw_strategy, kw_goal, kw_direction, kw_future}.
        py_in k (str_lower w (the_str (title r)) @ str_lower w (the_str (snippet r))))"

section \<open>Facts about strings\<close>

lemma startswith_iff: "startswith s p \<longleftrightarrow> (\<exists>t. s = p @ t)"
  by (induction s p rule: startswith.induct) auto

lemma py_in_iff: "py_in n s \<longleftrightarrow> (\<exists>a b. s = a @ n @ b)"
proof (induction s)
  case Nil
  then show ?case by auto
next
  case (Cons c cs)
  show ?case
  proof
    assume "py_in n (c # cs)"
    then consider "startswith (c # cs) n" | "py_in n cs" by auto
    then show "\<exists>a b. c # cs = a @ n @ b"
    proof cases
      case 1
      then obtain t where "c # cs = n @ t" unfolding startswith_iff ..
      then have "c # cs = [] @ n @ t" by simp
      then show ?thesis by blast
    next
      case 2
      then obtain a b where "cs = a @ n @ b" using Cons.IH by blast
      then have "c # cs = (c # a) @ n @ b" by simp
      then show ?thesis by blast
    qed
  next
    assume "\<exists>a b. c # cs = a @ n @ b"
    then obtain a b where ab: "c # cs = a @ n @ b" by blast
    show "py_in n (c # cs)"
    proof (cases a)
      case Nil
      with ab have "startswith (c # cs) n" unfolding startswith_iff by auto
      then show ?thesis by simp
    next
      case (Cons a0 as)
      with ab have "cs = as @ n @ b" by simp
      then have "py_in n cs" using Cons.IH by blast
      then show ?thesis by simp
    qed
  qed
qed

lemma py_in_append_right: "py_in n t \<Longrightarrow> py_in n (s @ t)"
  unfolding py_in_iff by (metis append.assoc)

lemma py_in_append_left: "py_in n s \<Longrightarrow> py_in n (s @ t)"
  unfolding py_in_iff by (metis append.assoc)

lemma py_in_self: "py_in n n"
  unfolding py_in_iff by (metis append_Nil append_Nil2)

lemma py_in_middle: "py_in n (a @ n @ b)"
  unfolding py_in_iff by blast

lemma billing_url_in_quota_tail: "py_in billing_dashboard_url quota_tail"
  unfolding py_in_iff quota_tail_def by blast

lemma api_keys_url_in_auth_tail: "py_in api_keys_url auth_tail"
  unfolding py_in_iff auth_tail_def by blast

section \<open>Model-call errors\<close>

lemma section_text_raises:
  assumes "chat_create w tr system_msg prompt max_tokens = Inl e"
  shows "fst (section_text w tr system_msg prompt max_tokens section_name)
           = format_openai_error e section_name"
  using assms by (simp add: section_text_def chat_text_def)

lemma quota_message_not_auth_message: "quota_message s \<noteq> auth_message s"
proof -
  have "quota_tail_pre ! 19 \<noteq> auth_tail_pre ! 19"
    by (simp add: quota_tail_pre_def auth_tail_pre_def u_def)
  moreover have "length quota_tail_pre > 19" "length auth_tail_pre > 19"
    by (simp_all add: quota_tail_pre_def auth_tail_pre_def u_def)
  ultimately have "quota_tail \<noteq> auth_tail"
    unfolding quota_tail_def auth_tail_def
    by (metis nth_append)
  then show ?thesis by (simp add: quota_message_def auth_message_def)
qed

text \<open>
  C10. When the text of a model-call error carries a quota marker
  (\<open>insufficient_quota\<close> or \<open>429\<close>) and an authentication marker
  (\<open>invalid_api_key\<close> or \<open>401\<close>) at once, the message returned is the
  quota-exceeded one and not the authentication one: the quota test comes first.
\<close>

theorem quota_checked_before_auth:
  assumes "py_in quota_marker (exn_str e) \<or> py_in http_429_marker (exn_str e)"
    and "py_in auth_marker (exn_str e) \<or> py_in http_401_marker (exn_str e)"
  shows "format_openai_error e section_name = quota_message section_name
         \<and> format_openai_error e section_name \<noteq> auth_message section_name"
  using assms(1) quota_message_not_auth_message [of section_name]
  by (simp add: format_openai_error_def)

theorem quota_checked_before_auth_witness:
  "(py_in quota_marker (exn_str (Exn External (u ''429 invalid_api_key'')))
      \<or> py_in http_429_marker (exn_str (Exn External (u ''429 invalid_api_key''))))
   \<and> (py_in auth_marker (exn_str (Exn External (u ''429 invalid_api_key'')))
      \<or> py_in http_401_marker (exn_str (Exn External (u ''429 invalid_api_key''))))
   \<and> format_openai_error (Exn External (u ''429 invalid_api_key'')) overview_section
       = quota_message overview_section
   \<and> format_openai_error (Exn External (u ''429 invalid_api_key'')) overview_section
       \<noteq> auth_message overview_section"
proof -
  have q: "py_in quota_marker (exn_str (Exn External (u ''429 invalid_api_key'')))
      \<or> py_in http_429_marker (exn_str (Exn External (u ''429 invalid_api_key'')))"
    by (simp add: http_429_marker_def u_def)
  have a: "py_in auth_marker (exn_str (Exn External (u ''429 invalid_api_key'')))
      \<or> py_in http_401_marker (exn_str (Exn External (u ''429 invalid_api_key'')))"
    by (simp add: auth_marker_def u_def)
  show ?thesis
    using q a quota_checked_before_auth [OF q a, of overview_section] by blast
qed

text \<open>
  C9. When the model call raises, the section generator returns text and raises nothing:
  the text is the message \<open>_format_openai_error\<close> makes from the error. An error whose
  text contains \<open>insufficient_quota\<close> or \<open>429\<close> gives the quota message, which names
  the billing dashboard; failing that, one that contains \<open>invalid_api_key\<close> or \<open>401\<close>
  gives the key message, which names the page where keys are issued; every other error
  gives the generic message, which contains the error's text. The talent and vision
  generators classify the results before they call the model; when that classification
  returns, their text is the message as well.
\<close>

theorem model_error_becomes_section_text:
  assumes "chat_create w = (\<lambda>tr s p n. Inl e)"
  shows "fst (generate_overview w tr company_name rs wc)
           = format_openai_error e overview_section
    \<and> (case fst (generate_talent_profile w tr company_name rs wc) of
          Inr text \<Rightarrow> text = format_openai_error e talent_section
        | Inl x \<Rightarrow> talent_results_model w rs = Inl x)
    \<and> (case fst (generate_recent_vision w tr company_name rs) of
          Inr text \<Rightarrow> text = format_openai_error e vision_section
        | Inl x \<Rightarrow> vision_context w company_name rs = Inl x)
    \<and> (py_in quota_marker (exn_str e) \<or> py_in http_429_marker (exn_str e) \<longrightarrow>
          format_openai_error e section_name = quota_message section_name
          \<and> py_in billing_dashboard_url (format_openai_error e section_name))
    \<and> (\<not> (py_in quota_marker (exn_str e) \<or> py_in http_429_marker (exn_str e))
        \<and> (py_in auth_marker (exn_str e) \<or> py_in http_401_marker (exn_str e)) \<longrightarrow>
          format_openai_error e section_name = auth_message section_name
          \<and> py_in api_keys_url (format_openai_error e section_name))
    \<and> (\<not> (py_in quota_marker (exn_str e) \<or> py_in http_429_marker (exn_str e))
        \<and> \<not> (py_in auth_marker (exn_str e) \<or> py_in http_401_marker (exn_str e)) \<longrightarrow>
          format_openai_error e section_name = other_message section_name (exn_str e)
          \<and> py_in (exn_str e) (format_openai_error e section_name))"
proof -
  have raises: "chat_create w t s p n = Inl e" for t s p n
    using assms by simp
  have 1: "fst (generate_overview w tr company_name rs wc)
             = format_openai_error e overview_section"
    unfolding generate_overview_def by (rule section_text_raises [OF raises])
  have 2: "case fst (generate_talent_profile w tr company_name rs wc) of
          Inr text \<Rightarrow> text = format_openai_error e talent_section
        | Inl x \<Rightarrow> talent_results_model w rs = Inl x"
  proof (cases "talent_results_model w rs")
    case (Inl x)
    then show ?thesis by (simp add: generate_talent_profile_def)
  next
    case (Inr talent)
    then show ?thesis
      using section_text_raises [OF raises, of tr talent_system _ 800 talent_section]
      by (simp add: generate_talent_profile_def Let_def split_beta)
  qed
  have 3: "case fst (generate_recent_vision w tr company_name rs) of
          Inr text \<Rightarrow> text = format_openai_error e vision_section
        | Inl x \<Rightarrow> vision_context w company_name rs = Inl x"
  proof (cases "vision_context w company_name rs")
    case (Inl x)
    then show ?thesis by (simp add: generate_recent_vision_def)
  next
    case (Inr ctx)
    then show ?thesis
      using section_text_raises [OF raises, of tr vision_system _ 1000 vision_section]
      by (simp add: generate_recent_vision_def Let_def split_beta)
  qed
  have q: "py_in billing_dashboard_url (quota_message section_name)"
    unfolding quota_message_def
    by (intro py_in_append_right billing_url_in_quota_tail)
  have a: "py_in api_keys_url (auth_message section_name)"
    unfolding auth_message_def
    by (intro py_in_append_right api_keys_url_in_auth_tail)
  have "other_message section_name (exn_str e)
          = (error_head @ section_name @ other_mid) @ exn_str e @ other_tail"
    by (simp add: other_message_def)
  then have o: "py_in (exn_str e) (other_message section_name (exn_str e))"
    using py_in_middle by metis
  show ?thesis
    using 1 2 3 q a o by (simp add: format_openai_error_def)
qed

theorem model_error_becomes_section_text_witness:
  "chat_create (model_raising (Exn External (u ''Error code: 429'')))
     = (\<lambda>tr s p n. Inl (Exn External (u ''Error code: 429'')))
   \<and> fst (generate_overview (model_raising (Exn External (u ''Error code: 429''))) []
            (u ''Acme'') [] None)
       = quota_message overview_section
   \<and> py_in billing_dashboard_url
        (fst (generate_overview (model_raising (Exn External (u ''Error code: 429''))) []
            (u ''Acme'') [] None))"
proof -
  have h: "chat_create (model_raising (Exn External (u ''Error code: 429'')))
     = (\<lambda>tr s p n. Inl (Exn External (u ''Error code: 429'')))"
    by (simp add: model_raising_def)
  have m: "py_in quota_marker (exn_str (Exn External (u ''Error code: 429'')))
      \<or> py_in http_429_marker (exn_str (Exn External (u ''Error code: 429'')))"
    by (simp add: http_429_marker_def u_def)
  note t = model_error_becomes_section_text [OF h, of "[]" "u ''Acme''" "[]" None
        overview_section]
  from t have g: "fst (generate_overview (model_raising (Exn External (u ''Error code: 429''))) []
            (u ''Acme'') [] None)
       = format_openai_error (Exn External (u ''Error code: 429'')) overview_section"
    by blast
  from t m have f: "format_openai_error (Exn External (u ''Error code: 429'')) overview_section
       = quota_message overview_section
     \<and> py_in billing_dashboard_url
          (format_openai_error (Exn External (u ''Error code: 429'')) overview_section)"
    by blast
  show ?thesis
    using h g f by metis
qed

section \<open>Classification\<close>

lemma py_lower_str: "is_str v \<Longrightarrow> py_lower w v = Inr (str_lower w (the_str v))"
  by (cases v) simp_all

lemma title_snippet_lower_str:
  "str_fields r \<Longrightarrow>
   title_snippet_lower w r
     = Inr (str_lower w (the_str (title r)) @ str_lower w (the_str (snippet r)))"
  by (simp add: title_snippet_lower_def str_fields_def py_lower_str)

lemma filter_raising_Inr:
  "(\<And>r. r \<in> set rs \<Longrightarrow> cond r = Inr (p r)) \<Longrightarrow> filter_raising cond rs = Inr (filter p rs)"
  by (induction rs) simp_all

lemma any_in_talent_keywords:
  "any_in talent_keywords s
     \<longleftrightarrow> (\<exists>k \<in> {kw_injaesang, kw_chaeyong, kw_injae, kw_insa, kw_injaegwan}. py_in k s)"
  by (auto simp: any_in_def talent_keywords_def list_ex_iff)

lemma any_in_talent_keywords_model:
  "any_in talent_keywords_model s
     \<longleftrightarrow> (\<exists>k \<in> {kw_injaesang, kw_chaeyong, kw_injae, kw_insa, kw_injaegwan}. py_in k s)"
  by (auto simp: any_in_def talent_keywords_model_def list_ex_iff)

lemma any_in_vision_keywords:
  "any_in vision_keywords s
     \<longleftrightarrow> (\<exists>k \<in> {kw_vision, kw_strategy, kw_goal, kw_direction, kw_future}. py_in k s)"
  by (auto simp: any_in_def vision_keywords_def list_ex_iff)

lemma talent_results_str:
  assumes "\<forall>r \<in> set rs. str_fields r"
  shows "talent_results w rs = Inr (filter (talent_match w) rs)"
  unfolding talent_results_def
  by (rule filter_raising_Inr)
     (use assms in \<open>simp add: keyword_cond_def title_snippet_lower_str talent_match_def
        any_in_talent_keywords\<close>)

lemma talent_results_model_str:
  assumes "\<forall>r \<in> set rs. str_fields r"
  shows "talent_results_model w rs = Inr (filter (talent_match w) rs)"
  unfolding talent_results_model_def
  by (rule filter_raising_Inr)
     (use assms in \<open>simp add: keyword_cond_def title_snippet_lower_str talent_match_def
        any_in_talent_keywords_model\<close>)

lemma vision_results_str:
  assumes "\<forall>r \<in> set rs. str_fields r"
  shows "vision_results w rs = Inr (filter (vision_match w) rs)"
  unfolding vision_results_def
  by (rule filter_raising_Inr)
     (use assms in \<open>simp add: keyword_cond_def title_snippet_lower_str vision_match_def
        any_in_vision_keywords\<close>)

lemma news_results_str:
  assumes "\<forall>r \<in> set rs. str_fields r"
  shows "news_results w rs = Inr (filter (news_match w) rs)"
  unfolding news_results_def
  by (rule filter_raising_Inr)
     (use assms in \<open>simp add: news_cond_def news_match_def str_fields_def py_lower_str\<close>)

text \<open>
  C7. For a list of results whose titles and snippets are strings, the talent
  classification, at both places where the code does it (line 446 and line 617), keeps a
  result exactly when its lower-cased title followed by its lower-cased snippet contains
  one of the talent keywords. It only filters: the results kept are a subsequence of the
  list, in the list's order, and a result of the list that is left out matches no
  keyword.
\<close>

theorem talent_classification_is_keyword_filter:
  assumes "\<forall>r \<in> set rs. str_fields r"
  shows "talent_results w rs = Inr (filter (talent_match w) rs)
    \<and> talent_results_model w rs = Inr (filter (talent_match w) rs)
    \<and> (\<forall>r \<in> set rs. r \<in> set (filter (talent_match w) rs) \<longleftrightarrow> talent_match w r)
    \<and> subseq (filter (talent_match w) rs) rs"
  using talent_results_str [OF assms] talent_results_model_str [OF assms] by simp

lemma example_results_str_fields:
  "str_fields plain_result" "str_fields hiring_result" "str_fields dated_result"
  by (simp_all add: str_fields_def plain_result_def hiring_result_def dated_result_def)

lemma talent_match_examples:
  "\<not> talent_match offline plain_result" "talent_match offline hiring_result"
  by (simp_all add: talent_match_def offline_def ascii_lower_def plain_result_def
        hiring_result_def u_def kw_injaesang_def kw_chaeyong_def kw_injae_def kw_insa_def
        kw_injaegwan_def)

theorem talent_classification_is_keyword_filter_witness:
  "list_all str_fields [plain_result, hiring_result]
   \<and> talent_results offline [plain_result, hiring_result] = Inr [hiring_result]
   \<and> talent_results_model offline [plain_result, hiring_result] = Inr [hiring_result]"
proof -
  have h: "\<forall>r \<in> set [plain_result, hiring_result]. str_fields r"
    by (simp add: example_results_str_fields)
  have f: "filter (talent_match offline) [plain_result, hiring_result] = [hiring_result]"
    by (simp add: talent_match_examples)
  show ?thesis
    using talent_classification_is_keyword_filter [OF h, of offline] unfolding f
    by (simp add: example_results_str_fields)
qed

text \<open>
  C8. For a list of results whose titles and snippets are strings, the news
  classification keeps exactly the results that carry a date which is not empty or whose
  title, lower-cased, contains the marker for "news" or the marker for "article" (where
  lower-casing leaves these markers alone, as it does for Hangul, that is the title
  itself). The vision keywords come into play only when this news subset is empty: with a
  news subset that is not empty, the vision section of the formatter and the context of
  the model prompt are made from the news subset alone; with an empty one, they are made
  from the results whose title and snippet contain a vision keyword.
\<close>

theorem news_first_then_vision:
  assumes "\<forall>r \<in> set rs. str_fields r"
  shows "news_results w rs = Inr (filter (news_match w) rs)
    \<and> ((\<forall>s. py_in kw_news (str_lower w s) = py_in kw_news s
             \<and> py_in kw_article (str_lower w s) = py_in kw_article s) \<longrightarrow>
        (\<forall>r \<in> set rs. r \<in> set (filter (news_match w) rs) \<longleftrightarrow>
           date_truthy r \<or> py_in kw_news (the_str (title r))
           \<or> py_in kw_article (the_str (title r))))
    \<and> (filter (news_match w) rs \<noteq> [] \<longrightarrow>
          format_search_results_as_vision w company_name rs
            = Inr (section_head @ company_name @ vision_title_tail
                   @ news_header @ news_items 1 (take 5 (filter (news_match w) rs)))
          \<and> vision_context w company_name rs
            = Inr (company_name_label @ company_name @ [10, 10]
                   @ news_label @ news_context_items (take 5 (filter (news_match w) rs))))
    \<and> (filter (news_match w) rs = [] \<longrightarrow>
          format_search_results_as_vision w company_name rs
            = Inr (section_head @ company_name @ vision_title_tail
                   @ (if filter (vision_match w) rs \<noteq> [] then
                        vision_header @ numbered_items 1 (take 5 (filter (vision_match w) rs))
                      else
                        no_vision_text
                        @ (if rs \<noteq> [] then general_results_header @ numbered_items 1 (take 3 rs)
                           else [])))
          \<and> vision_context w company_name rs
            = Inr (company_name_label @ company_name @ [10, 10]
                   @ (if filter (vision_match w) rs \<noteq> [] then
                        vision_info_label @ dash_items (take 3 (filter (vision_match w) rs))
                      else [])))"
proof -
  note n = news_results_str [OF assms, of w]
  note v = vision_results_str [OF assms, of w]
  have 1: "(\<forall>s. py_in kw_news (str_lower w s) = py_in kw_news s
             \<and> py_in kw_article (str_lower w s) = py_in kw_article s) \<longrightarrow>
        (\<forall>r \<in> set rs. r \<in> set (filter (news_match w) rs) \<longleftrightarrow>
           date_truthy r \<or> py_in kw_news (the_str (title r))
           \<or> py_in kw_article (the_str (title r)))"
    by (simp add: news_match_def)
  have 2: "filter (news_match w) rs \<noteq> [] \<longrightarrow>
          format_search_results_as_vision w company_name rs
            = Inr (section_head @ company_name @ vision_title_tail
                   @ news_header @ news_items 1 (take 5 (filter (news_match w) rs)))
          \<and> vision_context w company_name rs
            = Inr (company_name_label @ company_name @ [10, 10]
                   @ news_label @ news_context_items (take 5 (filter (news_match w) rs)))"
    by (simp add: format_search_results_as_vision_def vision_context_def n)
  have 3: "filter (news_match w) rs = [] \<longrightarrow>
          format_search_results_as_vision w company_name rs
            = Inr (section_head @ company_name @ vision_title_tail
                   @ (if filter (vision_match w) rs \<noteq> [] then
                        vision_header @ numbered_items 1 (take 5 (filter (vision_match w) rs))
                      else
                        no_vision_text
                        @ (if rs \<noteq> [] then general_results_header @ numbered_items 1 (take 3 rs)
                           else [])))
          \<and> vision_context w company_name rs
            = Inr (company_name_label @ company_name @ [10, 10]
                   @ (if filter (vision_match w) rs \<noteq> [] then
                        vision_info_label @ dash_items (take 3 (filter (vision_match w) rs))
                      else []))"
    by (simp add: format_search_results_as_vision_def vision_context_def n v)
  show ?thesis
    using n 1 2 3 by blast
qed

lemma news_match_examples:
  "\<not> news_match offline plain_result" "\<not> news_match offline hiring_result"
  "news_match offline dated_result"
  by (simp_all add: news_match_def date_truthy_def offline_def ascii_lower_def
        plain_result_def hiring_result_def dated_result_def u_def kw_news_def kw_article_def
        kw_chaeyong_def)

theorem news_first_then_vision_witness:
  "list_all str_fields [plain_result, dated_result, hiring_result]
   \<and> news_results offline [plain_result, dated_result, hiring_result] = Inr [dated_result]
   \<and> format_search_results_as_vision offline (u ''Acme'')
        [plain_result, dated_result, hiring_result]
       = Inr (section_head @ u ''Acme'' @ vision_title_tail
              @ news_header @ news_items 1 [dated_result])"
proof -
  have h: "\<forall>r \<in> set [plain_result, dated_result, hiring_result]. str_fields r"
    by (simp add: example_results_str_fields)
  have f: "filter (news_match offline) [plain_result, dated_result, hiring_result]
             = [dated_result]"
    by (simp add: news_match_examples)
  note t = news_first_then_vision [OF h, of offline "u ''Acme''", unfolded f]
  from t have a: "news_results offline [plain_result, dated_result, hiring_result]
                   = Inr [dated_result]"
    by blast
  from t have b: "format_search_results_as_vision offline (u ''Acme'')
        [plain_result, dated_result, hiring_result]
       = Inr (section_head @ u ''Acme'' @ vision_title_tail
              @ news_header @ news_items 1 (take 5 [dated_result]))"
    by blast
  show ?thesis
    using a b by (simp add: example_results_str_fields)
qed

section \<open>The extraction loop\<close>

lemma extract_loop_titles:
  "length results < max_results \<Longrightarrow>
   map title (fst (extract_loop w max_results is_news es results tr))
     = map title results
       @ map (\<lambda>e. PStr (title_text e)) (take (max_results - length results) (filter titled es))"
proof (induction es arbitrary: results tr)
  case Nil
  then show ?case by simp
next
  case (Cons e es)
  show ?case
  proof (cases "title_elem e")
    case None
    then have "\<not> titled e" by (simp add: titled_def title_text_def)
    with None Cons show ?thesis by simp
  next
    case (Some te)
    show ?thesis
    proof (cases "get_text_strip [] te = []")
      case True
      then have "\<not> titled e" using Some by (simp add: titled_def title_text_def)
      with Some True Cons show ?thesis by (simp add: split_beta)
    next
      case False
      then have t: "titled e" "title_text e = get_text_strip [] te"
        using Some by (simp_all add: titled_def title_text_def)
      obtain k where k: "max_results - length results = Suc k"
        using Cons.prems by (metis Suc_diff_Suc)
      show ?thesis
      proof (cases "Suc (length results) \<ge> max_results")
        case True
        then have "k = 0" using k by simp
        with Some False t True k show ?thesis
          by (simp add: split_beta Let_def result_dict_def)
      next
        case False
        then have lt: "length (results @ [result_dict is_news e (get_text_strip [] te)
                         (fst (resolve_link w tr (href_of te)))]) < max_results"
          by simp
        have k': "max_results - Suc (length results) = k" using k by simp
        show ?thesis
          using Some \<open>get_text_strip [] te \<noteq> []\<close> t False k k'
            Cons.IH [OF lt, of "snd (resolve_link w tr (href_of te))"]
          by (simp add: split_beta Let_def result_dict_def)
      qed
    qed
  qed
qed

lemma extract_loop_members:
  assumes "r \<in> set (fst (extract_loop w max_results is_news es results tr))"
  shows "r \<in> set results
    \<or> (\<exists>e te tr0. e \<in> set es \<and> title_elem e = Some te \<and> get_text_strip [] te \<noteq> []
          \<and> r = result_dict is_news e (get_text_strip [] te)
                  (fst (resolve_link w tr0 (href_of te))))"
  using assms
proof (induction es arbitrary: results tr)
  case Nil
  then show ?case by simp
next
  case (Cons e es)
  show ?case
  proof (cases "title_elem e")
    case None
    with Cons.prems have "r \<in> set (fst (extract_loop w max_results is_news es results tr))"
      by simp
    from Cons.IH [OF this] show ?thesis by auto
  next
    case (Some te)
    let ?l = "fst (resolve_link w tr (href_of te))"
    let ?tr = "snd (resolve_link w tr (href_of te))"
    let ?new = "result_dict is_news e (get_text_strip [] te) ?l"
    show ?thesis
    proof (cases "get_text_strip [] te = []")
      case True
      with Some Cons.prems
      have "r \<in> set (fst (extract_loop w max_results is_news es results ?tr))"
        by (simp add: split_beta)
      from Cons.IH [OF this] show ?thesis by auto
    next
      case False
      have here: "\<exists>e' te' tr0. e' \<in> set (e # es) \<and> title_elem e' = Some te'
          \<and> get_text_strip [] te' \<noteq> []
          \<and> ?new = result_dict is_news e' (get_text_strip [] te')
                  (fst (resolve_link w tr0 (href_of te')))"
        using Some False by auto
      show ?thesis
      proof (cases "Suc (length results) \<ge> max_results")
        case True
        with Some False Cons.prems have "r \<in> set (results @ [?new])"
          by (simp add: split_beta Let_def)
        with here show ?thesis by auto
      next
        case stop: False
        with Some False Cons.prems
        have "r \<in> set (fst (extract_loop w max_results is_news es (results @ [?new]) ?tr))"
          by (simp add: split_beta Let_def)
        from Cons.IH [OF this] here show ?thesis by auto
      qed
    qed
  qed
qed

lemma resolve_link_trace: "\<exists>ext. snd (resolve_link w tr href) = tr @ ext"
  by (simp add: resolve_link_def Let_def split: sum.splits)

lemma extract_loop_trace:
  "\<exists>ext. snd (extract_loop w max_results is_news es results tr) = tr @ ext"
proof (induction es arbitrary: results tr)
  case Nil
  then show ?case by simp
next
  case (Cons e es)
  show ?case
  proof (cases "title_elem e")
    case None
    with Cons.IH show ?thesis by simp
  next
    case (Some te)
    obtain ext where ext: "snd (resolve_link w tr (href_of te)) = tr @ ext"
      using resolve_link_trace by blast
    have step: "\<exists>ext'. snd (extract_loop w max_results is_news es rs (tr @ ext)) = tr @ ext'"
      for rs
      using Cons.IH [of rs "tr @ ext"] by (metis append.assoc)
    show ?thesis
      using Some ext step by (simp add: split_beta Let_def)
  qed
qed

section \<open>Links\<close>

lemma startswith_wrapper_kh: "startswith href wrapper_kh_prefix \<Longrightarrow> startswith href wrapper_prefix"
  unfolding startswith_iff by (auto simp: wrapper_kh_prefix_def wrapper_prefix_def u_def)

lemma startswith_nonempty: "startswith s p \<Longrightarrow> p \<noteq> [] \<Longrightarrow> s \<noteq> []"
  by (cases s) (auto simp: startswith_iff)

lemma origin_starts_with_http: "startswith (ddg_origin @ href) http_prefix"
  unfolding startswith_iff by (simp add: ddg_origin_def http_prefix_def u_def)

lemma resolve_link_cases:
  assumes "\<forall>tr0 url0 final. http_head w tr0 url0 = Inr final
             \<longrightarrow> final = [] \<or> startswith final http_prefix"
  shows "startswith (fst (resolve_link w tr href)) http_prefix
    \<or> (fst (resolve_link w tr href) = href \<and> startswith href wrapper_prefix
        \<and> (\<forall>final. http_head w tr (ddg_origin @ href) = Inr final \<longrightarrow> final = []))"
proof (cases "startswith href wrapper_kh_prefix \<or> startswith href wrapper_prefix")
  case True
  then have wp: "startswith href wrapper_prefix" using startswith_wrapper_kh by blast
  show ?thesis
  proof (cases "http_head w tr (ddg_origin @ href)")
    case (Inl e)
    with True wp show ?thesis by (simp add: resolve_link_def Let_def)
  next
    case (Inr final)
    with assms have "final = [] \<or> startswith final http_prefix" by blast
    with True wp Inr show ?thesis by (auto simp: resolve_link_def Let_def)
  qed
next
  case False
  then show ?thesis using origin_starts_with_http by (auto simp: resolve_link_def)
qed

lemma resolve_link_nonempty:
  assumes "startswith (fst (resolve_link w tr href)) http_prefix
    \<or> (fst (resolve_link w tr href) = href \<and> startswith href wrapper_prefix)"
  shows "fst (resolve_link w tr href) \<noteq> []"
proof -
  have "http_prefix \<noteq> []" "wrapper_prefix \<noteq> []"
    by (simp_all add: http_prefix_def wrapper_prefix_def u_def)
  with assms show ?thesis using startswith_nonempty by metis
qed

lemma search_duckduckgo_html_results:
  "fst (search_duckduckgo_html w tr query max_results is_news) = []
   \<or> (\<exists>tr1 soup. fst (search_duckduckgo_html w tr query max_results is_news)
                    = fst (extract_results w tr1 soup max_results is_news))"
  by (auto simp: search_duckduckgo_html_def Let_def split: sum.splits)

lemma extract_results_members:
  assumes "r \<in> set (fst (extract_results w tr soup max_results is_news))"
  shows "\<exists>e te tr0. title_elem e = Some te \<and> get_text_strip [] te \<noteq> []
          \<and> r = result_dict is_news e (get_text_strip [] te)
                  (fst (resolve_link w tr0 (href_of te)))"
  using extract_loop_members [OF assms [unfolded extract_results_def]] by auto

lemmas page_eval =
  search_duckduckgo_html_def quote_plus_def is_surrogate_def quote_char_def unreserved_def
  raises_for_status_def extract_results_def result_elements_def strategy_a_def strategy_b_def
  strategy_c_def class_result_like_def result_like_def find_all_def find_in_def
  has_tag_class_def title_elem_def snippet_elem_def date_elem_def snippet_text_def
  date_text_def result_dict_def get_text_strip_def strip_def py_isspace_def resolve_link_def
  serving_def resolving_def offline_def ascii_lower_def Let_def u_def
  div_tag_def result_class_def web_result_class_def anchor_tag_def result_a_class_def
  result_link_class_def h2_tag_def result_title_class_def wrapper_kh_prefix_def
  wrapper_prefix_def http_prefix_def result_snippet_class_def span_tag_def p_tag_def
  result_date_class_def time_tag_def ddg_origin_def

text \<open>
  C4, as the code has it. Every result the scraper keeps has a link that is not empty.
  Provided the final URL of every HEAD request that succeeds starts with \<open>http\<close>, the
  link starts with \<open>http\<close> (the code's own test, at line 276, for a link that needs no
  prefix), with one exception: a redirect-wrapper link (one that starts with \<open>/l/?\<close>)
  whose HEAD request raised or returned no URL is kept as it was, a relative link.
\<close>

theorem kept_link_is_http_or_unresolved_wrapper:
  assumes "\<forall>tr0 url0 final. http_head w tr0 url0 = Inr final
             \<longrightarrow> final = [] \<or> startswith final http_prefix"
  shows "\<forall>r \<in> set (fst (search_duckduckgo_html w tr query max_results is_news)).
           \<exists>l href tr0. link r = PStr l \<and> l = fst (resolve_link w tr0 href) \<and> l \<noteq> []
             \<and> (startswith l http_prefix
                \<or> (l = href \<and> startswith href wrapper_prefix
                    \<and> (\<forall>final. http_head w tr0 (ddg_origin @ href) = Inr final
                          \<longrightarrow> final = [])))"
proof
  fix r
  assume r: "r \<in> set (fst (search_duckduckgo_html w tr query max_results is_news))"
  then obtain tr1 soup
    where "r \<in> set (fst (extract_results w tr1 soup max_results is_news))"
    using search_duckduckgo_html_results [of w tr query max_results is_news] by auto
  then obtain e te tr0
    where rd: "r = result_dict is_news e (get_text_strip [] te)
                     (fst (resolve_link w tr0 (href_of te)))"
    using extract_results_members by blast
  let ?l = "fst (resolve_link w tr0 (href_of te))"
  have c: "startswith ?l http_prefix
    \<or> (?l = href_of te \<and> startswith (href_of te) wrapper_prefix
        \<and> (\<forall>final. http_head w tr0 (ddg_origin @ href_of te) = Inr final \<longrightarrow> final = []))"
    using resolve_link_cases [OF assms] by blast
  then have n: "?l \<noteq> []" using resolve_link_nonempty by blast
  have "link r = PStr ?l" using rd by (simp add: result_dict_def)
  with c n show "\<exists>l href tr0. link r = PStr l \<and> l = fst (resolve_link w tr0 href) \<and> l \<noteq> []
             \<and> (startswith l http_prefix
                \<or> (l = href \<and> startswith href wrapper_prefix
                    \<and> (\<forall>final. http_head w tr0 (ddg_origin @ href) = Inr final
                          \<longrightarrow> final = [])))"
    by blast
qed

lemma resolved_search:
  "fst (search_duckduckgo_html (resolving wrapped_page (u ''https://acme.example/'')) []
          (u ''Acme'') 5 False)
     = [\<lparr>title = PStr (u ''Acme''), snippet = PStr (u ''Makers of things''),
         link = PStr (u ''https://acme.example/''), date = None\<rparr>]"
  by (simp add: page_eval wrapped_page_def)

theorem kept_link_is_http_or_unresolved_wrapper_witness:
  "http_head (resolving wrapped_page (u ''https://acme.example/''))
     = (\<lambda>tr url. Inr (u ''https://acme.example/''))
   \<and> startswith (u ''https://acme.example/'') http_prefix
   \<and> map link (fst (search_duckduckgo_html
                       (resolving wrapped_page (u ''https://acme.example/'')) []
                       (u ''Acme'') 5 False))
       = [PStr (u ''https://acme.example/'')]
   \<and> list_all (\<lambda>r. \<exists>l. link r = PStr l \<and> l \<noteq> []
                     \<and> (startswith l http_prefix \<or> startswith l wrapper_prefix))
        (fst (search_duckduckgo_html
                (resolving wrapped_page (u ''https://acme.example/'')) []
                (u ''Acme'') 5 False))"
proof -
  let ?w = "resolving wrapped_page (u ''https://acme.example/'')"
  have o: "http_head ?w = (\<lambda>tr url. Inr (u ''https://acme.example/''))"
    by (simp add: resolving_def)
  have p: "startswith (u ''https://acme.example/'') http_prefix"
    by (simp add: http_prefix_def u_def)
  have h: "\<forall>tr0 url0 final. http_head ?w tr0 url0 = Inr final
             \<longrightarrow> final = [] \<or> startswith final http_prefix"
    using o p by simp
  note t = kept_link_is_http_or_unresolved_wrapper [OF h, of "[]" "u ''Acme''" 5 False]
  have "\<forall>r \<in> set (fst (search_duckduckgo_html ?w [] (u ''Acme'') 5 False)).
          \<exists>l. link r = PStr l \<and> l \<noteq> []
             \<and> (startswith l http_prefix \<or> startswith l wrapper_prefix)"
  proof
    fix r
    assume "r \<in> set (fst (search_duckduckgo_html ?w [] (u ''Acme'') 5 False))"
    with t obtain l href
      where "link r = PStr l" "l \<noteq> []"
        "startswith l http_prefix \<or> (l = href \<and> startswith href wrapper_prefix)"
      by blast
    then show "\<exists>l. link r = PStr l \<and> l \<noteq> []
             \<and> (startswith l http_prefix \<or> startswith l wrapper_prefix)"
      by blast
  qed
  then have a: "list_all (\<lambda>r. \<exists>l. link r = PStr l \<and> l \<noteq> []
                     \<and> (startswith l http_prefix \<or> startswith l wrapper_prefix))
        (fst (search_duckduckgo_html ?w [] (u ''Acme'') 5 False))"
    by (simp add: list_all_iff)
  have m: "map link (fst (search_duckduckgo_html ?w [] (u ''Acme'') 5 False))
       = [PStr (u ''https://acme.example/'')]"
    by (simp add: resolved_search)
  show ?thesis
    using o p m a by blast
qed

text \<open>
  The claim as it stands fails when the HEAD request fails: the wrapped link is kept, and
  it is neither empty nor does it start with \<open>http\<close>.
\<close>

theorem unresolved_wrapper_link_counterexample:
  "map link (fst (search_duckduckgo_html (serving wrapped_page) [] (u ''Acme'') 5 False))
     = [PStr (u ''/l/?uddg=acme'')]
   \<and> u ''/l/?uddg=acme'' \<noteq> []
   \<and> \<not> startswith (u ''/l/?uddg=acme'') http_prefix"
  by (simp add: page_eval wrapped_page_def)

section \<open>How many results\<close>

lemma extract_results_titles:
  assumes "0 < max_results"
  shows "map title (fst (extract_results w tr soup max_results is_news))
           = map (\<lambda>e. PStr (title_text e)) (filter titled (result_elements w soup max_results))"
proof -
  have "length (result_elements w soup max_results) \<le> max_results"
    by (simp add: result_elements_def)
  then have "length (filter titled (result_elements w soup max_results)) \<le> max_results"
    using length_filter_le le_trans by blast
  then show ?thesis
    using extract_loop_titles [of "[]" max_results w is_news _ tr] assms
    by (simp add: extract_results_def)
qed

lemma extract_results_length:
  assumes "0 < max_results"
  shows "length (fst (extract_results w tr soup max_results is_news))
           = length (filter titled (result_elements w soup max_results))"
  using arg_cong [OF extract_results_titles [OF assms], of length] by simp

lemma extract_results_titled:
  assumes "r \<in> set (fst (extract_results w tr soup max_results is_news))"
  shows "(\<exists>t. title r = PStr t \<and> t \<noteq> []) \<and> (\<not> is_news \<longrightarrow> date r = None)"
  using extract_results_members [OF assms] by (auto simp: result_dict_def)

lemma length_filter_all: "list_all p xs \<Longrightarrow> length (filter p xs) = length xs"
  by (induction xs) simp_all

text \<open>
  C5, as the code has it. In a document with at least one block under the first selector
  (a \<open>div\<close> with the class \<open>result\<close>), extraction with \<open>max_results = 5\<close> and
  \<open>is_news = False\<close> looks at the first five such blocks and no further, and returns one
  result, in order, for each of them that has a title: a title element with text. So it
  returns at most \<open>min N 5\<close> results, and exactly that many when each of those blocks
  has a title. Every result has a title that is not empty and no date.
\<close>

theorem first_selector_results:
  assumes "strategy_a soup \<noteq> []"
  shows "map title (fst (extract_results w tr soup 5 False))
           = map (\<lambda>e. PStr (title_text e)) (filter titled (take 5 (strategy_a soup)))
    \<and> length (fst (extract_results w tr soup 5 False)) \<le> min (length (strategy_a soup)) 5
    \<and> (list_all titled (take 5 (strategy_a soup)) \<longrightarrow>
          length (fst (extract_results w tr soup 5 False)) = min (length (strategy_a soup)) 5)
    \<and> (\<forall>r \<in> set (fst (extract_results w tr soup 5 False)).
          (\<exists>t. title r = PStr t \<and> t \<noteq> []) \<and> date r = None)"
proof -
  have re: "result_elements w soup 5 = take 5 (strategy_a soup)"
    using assms by (simp add: result_elements_def)
  have 1: "map title (fst (extract_results w tr soup 5 False))
           = map (\<lambda>e. PStr (title_text e)) (filter titled (take 5 (strategy_a soup)))"
    using extract_results_titles [of 5 w tr soup False] re by simp
  have len: "length (fst (extract_results w tr soup 5 False))
               = length (filter titled (take 5 (strategy_a soup)))"
    using extract_results_length [of 5 w tr soup False] re by simp
  have 2: "length (fst (extract_results w tr soup 5 False)) \<le> min (length (strategy_a soup)) 5"
    unfolding len using length_filter_le [of titled "take 5 (strategy_a soup)"] by simp
  have 3: "list_all titled (take 5 (strategy_a soup)) \<longrightarrow>
          length (fst (extract_results w tr soup 5 False)) = min (length (strategy_a soup)) 5"
    unfolding len by (simp add: length_filter_all)
  have 4: "\<forall>r \<in> set (fst (extract_results w tr soup 5 False)).
          (\<exists>t. title r = PStr t \<and> t \<noteq> []) \<and> date r = None"
    using extract_results_titled [of _ w tr soup 5 False] by simp
  show ?thesis
    using 1 2 3 4 by blast
qed

lemma two_results_extracted:
  "map title (fst (extract_results offline [] two_results_page 5 False))
     = [PStr (u ''Acme''), PStr (u ''About'')]"
  by (simp add: page_eval two_results_page_def)

theorem first_selector_results_witness:
  "strategy_a two_results_page \<noteq> []
   \<and> length (strategy_a two_results_page) = 2
   \<and> length (fst (extract_results offline [] two_results_page 5 False)) \<le> min 2 5
   \<and> map title (fst (extract_results offline [] two_results_page 5 False))
       = [PStr (u ''Acme''), PStr (u ''About'')]"
proof -
  have n: "length (strategy_a two_results_page) = 2"
    by (simp add: page_eval two_results_page_def)
  then have h: "strategy_a two_results_page \<noteq> []" by auto
  from first_selector_results [OF h, of offline "[]"]
  have "length (fst (extract_results offline [] two_results_page 5 False))
          \<le> min (length (strategy_a two_results_page)) 5"
    by blast
  with h n two_results_extracted show ?thesis by simp
qed

text \<open>
  The claim as it stands fails on a block without a title: one block under the first
  selector, no result.
\<close>

theorem untitled_block_counterexample:
  "length (strategy_a untitled_page) = 1
   \<and> fst (extract_results offline [] untitled_page 5 False) = []"
  by (simp add: page_eval untitled_page_def)

text \<open>
  C6, as the code has it. The selectors are tried in order, each cut to the first five
  matches, and the first that matches anything supplies all the candidates: the first
  selector if it matches; else the second (class \<open>web-result\<close>); else the third (a class
  that contains \<open>result\<close> after lower-casing). In a document where the first two match
  nothing, the results are, in order, one for each of the first five matches of the third
  selector that has a title: at most \<open>min M 5\<close> of them, exactly that many when each of
  those matches has a title, and none when none has.
\<close>

theorem selectors_fall_through:
  "(strategy_a soup \<noteq> [] \<longrightarrow> result_elements w soup 5 = take 5 (strategy_a soup))
   \<and> (strategy_a soup = [] \<and> strategy_b soup \<noteq> [] \<longrightarrow>
        result_elements w soup 5 = take 5 (strategy_b soup))
   \<and> (strategy_a soup = [] \<and> strategy_b soup = [] \<longrightarrow>
        result_elements w soup 5 = take 5 (strategy_c w soup)
        \<and> map title (fst (extract_results w tr soup 5 is_news))
            = map (\<lambda>e. PStr (title_text e)) (filter titled (take 5 (strategy_c w soup)))
        \<and> length (fst (extract_results w tr soup 5 is_news))
            \<le> min (length (strategy_c w soup)) 5
        \<and> (list_all titled (take 5 (strategy_c w soup)) \<longrightarrow>
              length (fst (extract_results w tr soup 5 is_news))
                = min (length (strategy_c w soup)) 5)
        \<and> (\<not> list_ex titled (take 5 (strategy_c w soup)) \<longrightarrow>
              fst (extract_results w tr soup 5 is_news) = []))"
proof -
  have 1: "strategy_a soup \<noteq> [] \<longrightarrow> result_elements w soup 5 = take 5 (strategy_a soup)"
    by (simp add: result_elements_def)
  have 2: "strategy_a soup = [] \<and> strategy_b soup \<noteq> [] \<longrightarrow>
        result_elements w soup 5 = take 5 (strategy_b soup)"
    by (simp add: result_elements_def)
  have 3: "result_elements w soup 5 = take 5 (strategy_c w soup)
        \<and> map title (fst (extract_results w tr soup 5 is_news))
            = map (\<lambda>e. PStr (title_text e)) (filter titled (take 5 (strategy_c w soup)))
        \<and> length (fst (extract_results w tr soup 5 is_news))
            \<le> min (length (strategy_c w soup)) 5
        \<and> (list_all titled (take 5 (strategy_c w soup)) \<longrightarrow>
              length (fst (extract_results w tr soup 5 is_news))
                = min (length (strategy_c w soup)) 5)
        \<and> (\<not> list_ex titled (take 5 (strategy_c w soup)) \<longrightarrow>
              fst (extract_results w tr soup 5 is_news) = [])"
    if ab: "strategy_a soup = [] \<and> strategy_b soup = []"
  proof -
    have re: "result_elements w soup 5 = take 5 (strategy_c w soup)"
      using ab by (simp add: result_elements_def)
    have t: "map title (fst (extract_results w tr soup 5 is_news))
            = map (\<lambda>e. PStr (title_text e)) (filter titled (take 5 (strategy_c w soup)))"
      using extract_results_titles [of 5 w tr soup is_news] re by simp
    have len: "length (fst (extract_results w tr soup 5 is_news))
                 = length (filter titled (take 5 (strategy_c w soup)))"
      using extract_results_length [of 5 w tr soup is_news] re by simp
    have le: "length (fst (extract_results w tr soup 5 is_news))
            \<le> min (length (strategy_c w soup)) 5"
      unfolding len using length_filter_le [of titled "take 5 (strategy_c w soup)"] by simp
    have eq: "list_all titled (take 5 (strategy_c w soup)) \<longrightarrow>
              length (fst (extract_results w tr soup 5 is_news))
                = min (length (strategy_c w soup)) 5"
      unfolding len by (simp add: length_filter_all)
    have none: "\<not> list_ex titled (take 5 (strategy_c w soup)) \<longrightarrow>
              fst (extract_results w tr soup 5 is_news) = []"
      using len by (auto simp: list_ex_iff filter_empty_conv)
    show ?thesis using re t le eq none by blast
  qed
  show ?thesis
    using 1 2 3 by blast
qed

theorem selectors_fall_through_witness:
  "strategy_a fallback_page = [] \<and> strategy_b fallback_page = []
   \<and> length (strategy_c offline fallback_page) = 1
   \<and> result_elements offline fallback_page 5 = take 5 (strategy_c offline fallback_page)
   \<and> map title (fst (extract_results offline [] fallback_page 5 False)) = [PStr (u ''Acme'')]"
proof -
  have ab: "strategy_a fallback_page = [] \<and> strategy_b fallback_page = []"
    by (simp add: page_eval fallback_page_def)
  have c: "length (strategy_c offline fallback_page) = 1"
    by (simp add: page_eval fallback_page_def)
  have e: "map title (fst (extract_results offline [] fallback_page 5 False))
             = [PStr (u ''Acme'')]"
    by (simp add: page_eval fallback_page_def)
  from selectors_fall_through [of fallback_page offline "[]" False] ab
  have "result_elements offline fallback_page 5 = take 5 (strategy_c offline fallback_page)"
    by blast
  with ab c e show ?thesis by blast
qed

text \<open>
  The claim as it stands fails on a fallback block without a title: the first two
  selectors match nothing, the third matches one block, and no result is returned.
\<close>

theorem untitled_fallback_counterexample:
  "strategy_a untitled_fallback_page = [] \<and> strategy_b untitled_fallback_page = []
   \<and> length (strategy_c offline untitled_fallback_page) = 1
   \<and> fst (extract_results offline [] untitled_fallback_page 5 False) = []"
  by (simp add: page_eval untitled_fallback_page_def)

section \<open>The URL the scraper requests\<close>

lemma extract_results_trace:
  "\<exists>ext. snd (extract_results w tr soup max_results is_news) = tr @ ext"
  unfolding extract_results_def by (rule extract_loop_trace)

lemma search_duckduckgo_html_first_call:
  assumes "quote_plus query = Inr encoded_query"
  shows "\<exists>ext. snd (search_duckduckgo_html w tr query max_results is_news)
                 = tr @ HttpGet ddg_fixed_url [] # ext"
proof (cases "http_get w tr ddg_fixed_url []")
  case (Inl e)
  with assms show ?thesis by (simp add: search_duckduckgo_html_def)
next
  case (Inr response)
  show ?thesis
  proof (cases "raises_for_status response")
    case True
    with assms Inr show ?thesis by (simp add: search_duckduckgo_html_def)
  next
    case False
    obtain ext
      where "snd (extract_results w (tr @ [HttpGet ddg_fixed_url []]) (html response)
                    max_results is_news)
               = (tr @ [HttpGet ddg_fixed_url []]) @ ext"
      using extract_results_trace by blast
    with assms Inr False show ?thesis by (simp add: search_duckduckgo_html_def)
  qed
qed

lemmas quote_eval =
  quote_plus_def is_surrogate_def quote_char_def unreserved_def utf8_def percent_byte_def
  hex_digit_def general_query_def general_query_suffix_def news_query_def
  news_query_suffix_def u_def

lemma acme_general_query_encoded:
  "quote_plus (general_query (u ''Acme''))
     = Inr (u ''Acme+%ED%9A%8C%EC%82%AC+%EC%86%8C%EA%B0%9C+%EC%9D%B8%EC%9E%AC%EC%83%81'')"
  by (simp add: quote_eval)

text \<open>
  C3 does not hold of the code. For the general query made for the company name
  \<open>Acme\<close>, the encoded query is computed, but the first call of the scraper, in every
  world, is a GET of the fixed URL of line 219, which is not the results-page URL built
  from the encoded query.
\<close>

theorem scraper_requests_fixed_url:
  "quote_plus (general_query (u ''Acme''))
     = Inr (u ''Acme+%ED%9A%8C%EC%82%AC+%EC%86%8C%EA%B0%9C+%EC%9D%B8%EC%9E%AC%EC%83%81'')
   \<and> take 1 (snd (search_duckduckgo_html w [] (general_query (u ''Acme'')) 5 False))
       = [HttpGet ddg_fixed_url []]
   \<and> ddg_fixed_url
       \<noteq> ddg_search_prefix
         @ u ''Acme+%ED%9A%8C%EC%82%AC+%EC%86%8C%EA%B0%9C+%EC%9D%B8%EC%9E%AC%EC%83%81''"
proof -
  obtain ext
    where "snd (search_duckduckgo_html w [] (general_query (u ''Acme'')) 5 False)
             = [] @ HttpGet ddg_fixed_url [] # ext"
    using search_duckduckgo_html_first_call [OF acme_general_query_encoded] by blast
  then have call: "take 1 (snd (search_duckduckgo_html w [] (general_query (u ''Acme'')) 5 False))
       = [HttpGet ddg_fixed_url []]"
    by simp
  have "length ddg_fixed_url
          \<noteq> length (ddg_search_prefix
               @ u ''Acme+%ED%9A%8C%EC%82%AC+%EC%86%8C%EA%B0%9C+%EC%9D%B8%EC%9E%AC%EC%83%81'')"
    by (simp add: ddg_fixed_url_def ddg_search_prefix_def u_def)
  then have "ddg_fixed_url
       \<noteq> ddg_search_prefix
         @ u ''Acme+%ED%9A%8C%EC%82%AC+%EC%86%8C%EA%B0%9C+%EC%9D%B8%EC%9E%AC%EC%83%81''"
    by metis
  with acme_general_query_encoded call show ?thesis by blast
qed

section \<open>The whole request\<close>

lemma search_duckduckgo_html_str_fields:
  assumes "r \<in> set (fst (search_duckduckgo_html w tr query max_results is_news))"
  shows "str_fields r"
proof -
  obtain tr1 soup where "r \<in> set (fst (extract_results w tr1 soup max_results is_news))"
    using assms search_duckduckgo_html_results [of w tr query max_results is_news] by auto
  then show ?thesis
    using extract_results_members by (fastforce simp: result_dict_def str_fields_def)
qed

lemma search_with_duckduckgo_str_fields:
  assumes "r \<in> set (fst (search_with_duckduckgo w tr company_name))"
  shows "str_fields r"
  using assms search_duckduckgo_html_str_fields
  by (auto simp: search_with_duckduckgo_def split_beta Let_def)

lemma free_scrape_str_fields:
  assumes "\<not> has_serpapi_key cfg"
    and "r \<in> set (fst (search_company_info cfg w tr company_name company_url))"
  shows "str_fields r"
  using assms search_with_duckduckgo_str_fields
  by (auto simp: search_company_info_def has_serpapi_key_def split: option.splits if_splits)

lemma sections_by_format_str:
  assumes "\<forall>r \<in> set rs. str_fields r"
  shows "\<exists>ov tp rv. sections_by_format w company_name rs wc
           = Inr \<lparr>overview = Some ov, talent_profile = Some tp, recent_vision = Some rv\<rparr>"
proof -
  have "\<exists>tp. format_search_results_as_talent_profile w company_name rs wc = Inr tp"
    by (simp add: format_search_results_as_talent_profile_def talent_results_str [OF assms])
  moreover have "\<exists>rv. format_search_results_as_vision w company_name rs = Inr rv"
    by (simp add: format_search_results_as_vision_def news_results_str [OF assms]
          vision_results_str [OF assms])
  ultimately show ?thesis
    by (auto simp: sections_by_format_def)
qed

lemma generate_talent_profile_str:
  assumes "\<forall>r \<in> set rs. str_fields r"
  shows "\<exists>tp tr'. generate_talent_profile w tr company_name rs wc = (Inr tp, tr')"
  by (simp add: generate_talent_profile_def talent_results_model_str [OF assms] split_beta
        Let_def)

lemma generate_recent_vision_str:
  assumes "\<forall>r \<in> set rs. str_fields r"
  shows "\<exists>rv tr'. generate_recent_vision w tr company_name rs = (Inr rv, tr')"
proof -
  have "\<exists>c. vision_context w company_name rs = Inr c"
    by (simp add: vision_context_def news_results_str [OF assms]
          vision_results_str [OF assms])
  then show ?thesis
    by (auto simp: generate_recent_vision_def split_beta Let_def)
qed

lemma sections_by_model_str:
  assumes "\<forall>r \<in> set rs. str_fields r"
  shows "\<exists>ov tp rv tr'. sections_by_model w tr company_name rs wc
           = (Inr \<lparr>overview = Some ov, talent_profile = Some tp, recent_vision = Some rv\<rparr>,
              tr')"
proof -
  obtain ov tr1 where 1: "generate_overview w tr company_name rs wc = (ov, tr1)"
    by (cases "generate_overview w tr company_name rs wc") blast
  obtain tp tr2 where 2: "generate_talent_profile w tr1 company_name rs wc = (Inr tp, tr2)"
    using generate_talent_profile_str [OF assms] by blast
  obtain rv tr3 where 3: "generate_recent_vision w tr2 company_name rs = (Inr rv, tr3)"
    using generate_recent_vision_str [OF assms] by blast
  show ?thesis
    using 1 2 3 by (simp add: sections_by_model_def)
qed

text \<open>
  C1, as the code has it. Whenever the title and the snippet of every search result
  collected are strings, \<open>summarize_company\<close> returns the structure with exactly the
  three fields \<open>overview\<close>, \<open>talent_profile\<close> and \<open>recent_vision\<close>, each of them a
  text, and raises nothing, whatever the search, the homepage fetch and the model call do.
  Without a search-API key (the free-scrape strategy) the condition always holds.
\<close>

theorem summarize_company_returns_three_sections:
  assumes "has_serpapi_key cfg \<longrightarrow>
             (\<forall>r \<in> set (fst (search_company_info cfg w tr company_name company_url)).
                str_fields r)"
  shows "\<exists>ov tp rv tr'.
           summarize_company cfg w tr company_name company_url
             = (Inr [(u ''overview'', Some ov), (u ''talent_profile'', Some tp),
                     (u ''recent_vision'', Some rv)], tr')"
proof -
  obtain rs tr1 where s: "search_company_info cfg w tr company_name company_url = (rs, tr1)"
    by (cases "search_company_info cfg w tr company_name company_url") blast
  obtain wc tr2 where c: "website_step w tr1 company_url = (wc, tr2)"
    by (cases "website_step w tr1 company_url") blast
  have str: "\<forall>r \<in> set rs. str_fields r"
  proof (cases "has_serpapi_key cfg")
    case True
    with assms s show ?thesis by simp
  next
    case False
    show ?thesis
      using free_scrape_str_fields [OF False, of _ w tr company_name company_url] s by simp
  qed
  show ?thesis
  proof (cases "client cfg")
    case True
    obtain ov tp rv tr3 where "sections_by_model w tr2 company_name rs wc
           = (Inr \<lparr>overview = Some ov, talent_profile = Some tp, recent_vision = Some rv\<rparr>,
              tr3)"
      using sections_by_model_str [OF str] by blast
    with s c True show ?thesis by (simp add: summarize_company_def to_dict_def)
  next
    case False
    obtain ov tp rv where "sections_by_format w company_name rs wc
           = Inr \<lparr>overview = Some ov, talent_profile = Some tp, recent_vision = Some rv\<rparr>"
      using sections_by_format_str [OF str] by blast
    with s c False show ?thesis by (simp add: summarize_company_def to_dict_def)
  qed
qed

lemmas serp_eval =
  search_company_info_def search_with_serpapi_def serpapi_search_def serp_items_def
  organic_dict_def news_dict_def dict_get_def answering_def offline_def
  search_key_only_def has_serpapi_key_def organic_results_key_def news_results_key_def
  Let_def u_def

lemma titled_answer_collected:
  "fst (search_company_info search_key_only (answering titled_answer) [] (u ''Acme'') None)
     = [\<lparr>title = PStr (u ''Acme Inc''), snippet = PStr (u ''Makers of things''),
         link = PStr [], date = None\<rparr>]"
  by (simp add: serp_eval titled_answer_def)

theorem summarize_company_returns_three_sections_witness:
  "has_serpapi_key search_key_only
   \<and> list_all str_fields
        (fst (search_company_info search_key_only (answering titled_answer) []
                (u ''Acme'') None))
   \<and> (\<exists>ov tp rv tr'.
         summarize_company search_key_only (answering titled_answer) [] (u ''Acme'') None
           = (Inr [(u ''overview'', Some ov), (u ''talent_profile'', Some tp),
                   (u ''recent_vision'', Some rv)], tr'))"
proof -
  have k: "has_serpapi_key search_key_only"
    by (simp add: has_serpapi_key_def search_key_only_def u_def)
  have h: "list_all str_fields
        (fst (search_company_info search_key_only (answering titled_answer) []
                (u ''Acme'') None))"
    unfolding titled_answer_collected by (simp add: str_fields_def)
  then have "has_serpapi_key search_key_only \<longrightarrow>
      (\<forall>r \<in> set (fst (search_company_info search_key_only (answering titled_answer) []
                        (u ''Acme'') None)). str_fields r)"
    by (simp add: list_all_iff)
  from summarize_company_returns_three_sections [OF this] k h show ?thesis by blast
qed

lemma null_title_answer_collected:
  "search_company_info search_key_only (answering null_title_answer) [] (u ''Acme'') None
     = ([\<lparr>title = PNone, snippet = PStr (u ''Makers of things''), link = PStr [],
          date = None\<rparr>],
        [HttpGet serpapi_url (general_params (u ''Acme'') (u ''key'')),
         HttpGet serpapi_url (news_params (u ''Acme'') (u ''key''))])"
  by (simp add: serp_eval null_title_answer_def)

text \<open>
  The claim as it stands fails when the search API returns a result whose title is
  \<open>null\<close>: the talent formatter calls \<open>lower\<close> on it, and the exception leaves
  \<open>summarize_company\<close>.
\<close>

theorem null_title_raises_counterexample:
  "fst (summarize_company search_key_only (answering null_title_answer) [] (u ''Acme'') None)
     = Inl (no_attribute PNone (u ''lower''))"
proof -
  have t: "format_search_results_as_talent_profile (answering null_title_answer) (u ''Acme'')
             [\<lparr>title = PNone, snippet = PStr (u ''Makers of things''), link = PStr [],
               date = None\<rparr>] None
           = Inl (no_attribute PNone (u ''lower''))"
    by (simp add: format_search_results_as_talent_profile_def talent_results_def
          keyword_cond_def title_snippet_lower_def)
  have c: "\<not> client search_key_only"
    by (simp add: search_key_only_def)
  show ?thesis
    by (simp add: summarize_company_def null_title_answer_collected website_step_def c
          sections_by_format_def t)
qed

section \<open>An empty company name\<close>

text \<open>
  C2, as the code has it. It is the command-line front end that rejects an empty company
  name: when the name typed is empty or blank, \<open>main\<close> ends with the rejection before it
  makes the summarizer, and no outbound call is made.
\<close>

theorem main_rejects_empty_name:
  assumes "strip name_typed = []"
  shows "main cfg w name_typed url_typed = (Rejected, [])"
  using assms by (simp add: main_def)

theorem main_rejects_empty_name_witness:
  "strip (u ''  '') = [] \<and> main no_keys offline (u ''  '') [] = (Rejected, [])"
proof -
  have h: "strip (u ''  '') = []"
    by (simp add: strip_def py_isspace_def u_def)
  from main_rejects_empty_name [OF h] h show ?thesis by blast
qed

text \<open>
  The claim as it stands fails: \<open>summarize_company\<close> itself does not look at the name.
  With an empty name and no keys it requests the search page twice and returns a result.
\<close>

theorem empty_name_not_rejected_counterexample:
  "snd (summarize_company no_keys offline [] [] None)
     = [HttpGet ddg_fixed_url [], HttpGet ddg_fixed_url []]
   \<and> \<not> isl (fst (summarize_company no_keys offline [] [] None))"
  by (simp add: summarize_company_def search_company_info_def search_with_duckduckgo_def
        search_duckduckgo_html_def quote_eval no_keys_def offline_def website_step_def
        sections_by_format_def format_search_results_as_talent_profile_def
        format_search_results_as_vision_def talent_results_def news_results_def
        vision_results_def)

end
